theory Spec2Isabelle
  imports Complex_Main
begin

section \<open>JavaScript values, thrown values and the runtime\<close>

text \<open>
  The Lambda code is TypeScript; what runs is JavaScript over JSON values, and the
  declared types are not checked at run time. A secret value is whatever
  \<^verbatim>\<open>JSON.parse\<close> returned for the stored secret string: it is modelled as a \<open>jsval\<close>,
  and a property read is a lookup by field name. An \<open>Obj\<close> lists the own properties of the object in enumeration order,
  each name once. Numbers are exact rationals (the code only subtracts millisecond
  timestamps, divides by 1000 and compares with whole seconds, which IEEE doubles do
  exactly for every magnitude below \<open>2 ^ 43\<close> seconds); \<^verbatim>\<open>NaN\<close> is a value of its own
  in \<open>jsnum\<close>.
\<close>

datatype jsval =
    Undefined
  | Null
  | Bool bool
  | Num rat
  | Str string
  | Arr "jsval list"
  | Obj "(string \<times> jsval) list"

datatype jsnum = NaN | Fin rat

text \<open>
  What a \<^verbatim>\<open>throw\<close> or a rejected promise carries: an \<^verbatim>\<open>Error\<close> instance with its
  \<^verbatim>\<open>name\<close> and \<^verbatim>\<open>message\<close>, or any other value, kept as its string rendering.
  Where the engine itself raises a \<^verbatim>\<open>TypeError\<close> (a property read on \<^verbatim>\<open>null\<close>, a
  call of what is not a function), the message is abridged.
\<close>

datatype thrown =
    ErrorObj string string
  | NonError string

abbreviation Error :: "string \<Rightarrow> thrown" where
  "Error msg \<equiv> ErrorObj ''Error'' msg"

abbreviation TypeError :: "string \<Rightarrow> thrown" where
  "TypeError msg \<equiv> ErrorObj ''TypeError'' msg"

abbreviation SyntaxError :: "string \<Rightarrow> thrown" where
  "SyntaxError msg \<equiv> ErrorObj ''SyntaxError'' msg"

text \<open>\<^verbatim>\<open>`${error}`\<close>: \<^verbatim>\<open>Error.prototype.toString\<close> for an \<^verbatim>\<open>Error\<close> instance.\<close>

fun thrownToString :: "thrown \<Rightarrow> string" where
  "thrownToString (ErrorObj n m) =
     (if n = [] then m else if m = [] then n else n @ '': '' @ m)"
| "thrownToString (NonError s) = s"

text \<open>Truthiness, as tested by \<^verbatim>\<open>if (v)\<close>, \<^verbatim>\<open>!v\<close> and \<^verbatim>\<open>a || b\<close>.\<close>

fun truthy :: "jsval \<Rightarrow> bool" where
  "truthy Undefined = False"
| "truthy Null = False"
| "truthy (Bool b) = b"
| "truthy (Num n) = (n \<noteq> 0)"
| "truthy (Str s) = (s \<noteq> [])"
| "truthy (Arr xs) = True"
| "truthy (Obj kvs) = True"

fun nullish :: "jsval \<Rightarrow> bool" where
  "nullish Undefined = True"
| "nullish Null = True"
| "nullish v = False"

text \<open>
  \<open>getProp v k\<close> is \<^verbatim>\<open>v.k\<close> for a \<open>v\<close> that is neither \<^verbatim>\<open>null\<close> nor \<^verbatim>\<open>undefined\<close>
  and for the property names this code reads (none of which a string, an array, a number
  or a boolean has): a missing property is \<^verbatim>\<open>undefined\<close>. \<open>optProp\<close> is \<^verbatim>\<open>v?.k\<close>.
\<close>

fun getProp :: "jsval \<Rightarrow> string \<Rightarrow> jsval" where
  "getProp (Obj kvs) k = (case map_of kvs k of None \<Rightarrow> Undefined | Some v \<Rightarrow> v)"
| "getProp v k = Undefined"

definition optProp :: "jsval \<Rightarrow> string \<Rightarrow> jsval" where
  "optProp v k = (if nullish v then Undefined else getProp v k)"

text \<open>Writing a property: an existing name keeps its place, a new one is appended.\<close>

fun objSet :: "(string \<times> jsval) list \<Rightarrow> string \<Rightarrow> jsval \<Rightarrow> (string \<times> jsval) list" where
  "objSet [] k v = [(k, v)]"
| "objSet ((k', v') # kvs) k v =
     (if k' = k then (k, v) # kvs else (k', v') # objSet kvs k v)"

fun showDigits :: "nat \<Rightarrow> nat \<Rightarrow> string" where
  "showDigits 0 n = []"
| "showDigits (Suc fuel) n =
     (if n < 10 then [char_of (48 + n)]
      else showDigits fuel (n div 10) @ [char_of (48 + n mod 10)])"

definition showNat :: "nat \<Rightarrow> string" where
  "showNat n = showDigits (Suc n) n"

text \<open>
  The own enumerable properties that an object spread \<^verbatim>\<open>{...v}\<close> copies: those of
  an object, the indexed elements of an array or a string, nothing for the rest.
\<close>

fun spreadEntries :: "jsval \<Rightarrow> (string \<times> jsval) list" where
  "spreadEntries (Obj kvs) = kvs"
| "spreadEntries (Arr xs) = zip (map showNat [0..<length xs]) xs"
| "spreadEntries (Str s) = zip (map showNat [0..<length s]) (map (\<lambda>c. Str [c]) s)"
| "spreadEntries v = []"

definition objSpread :: "jsval \<Rightarrow> (string \<times> jsval) list" where
  "objSpread v = foldl (\<lambda>acc (k, x). objSet acc k x) [] (spreadEntries v)"

text \<open>\<^verbatim>\<open>String.prototype.startsWith\<close>.\<close>

definition startsWith :: "string \<Rightarrow> string \<Rightarrow> bool" where
  "startsWith s p = (take (length p) s = p)"

text \<open>
  \<^verbatim>\<open>parseInt(s, 10)\<close> on ASCII input: leading white space is skipped, one sign is read,
  then the longest run of decimal digits; no digit gives \<^verbatim>\<open>NaN\<close>, here \<open>None\<close>.
\<close>

definition isWhiteSpace :: "char \<Rightarrow> bool" where
  "isWhiteSpace c = (of_char c \<in> {9, 10, 11, 12, 13, 32 :: nat})"

definition isDigit :: "char \<Rightarrow> bool" where
  "isDigit c = (48 \<le> (of_char c :: nat) \<and> (of_char c :: nat) \<le> 57)"

definition digitsValue :: "string \<Rightarrow> nat" where
  "digitsValue ds = foldl (\<lambda>acc c. 10 * acc + (of_char c - 48)) 0 ds"

definition parseInt :: "string \<Rightarrow> int option" where
  "parseInt s =
     (let t = dropWhile isWhiteSpace s;
          neg = (t \<noteq> [] \<and> hd t = CHR ''-'');
          u = (if t \<noteq> [] \<and> (hd t = CHR ''-'' \<or> hd t = CHR ''+'') then tl t else t);
          ds = takeWhile isDigit u
      in if ds = [] then None
         else Some (if neg then - int (digitsValue ds) else int (digitsValue ds)))"

subsection \<open>Commands sent to the two clients\<close>

record GetSecretValueCommandInput =
  gsvSecretId :: string
  gsvVersionId :: "string option"
  gsvVersionStage :: "string option"

record GetSecretValueResponse =
  respSecretString :: "string option"
  respVersionId :: "string option"
  respVersionStages :: "string list option"

record PutSecretValueCommandInput =
  psvSecretId :: string
  psvClientRequestToken :: string
  psvVersionStages :: "string list"
  psvSecretString :: string

record UpdateSecretVersionStageCommandInput =
  usvSecretId :: string
  usvVersionStage :: string
  usvMoveToVersionId :: string
  usvRemoveFromVersionId :: string

record GetObjectCommandInput =
  goBucket :: string
  goKey :: string

record PutObjectCommandInput =
  poBucket :: string
  poKey :: string
  poBody :: string
  poContentType :: string
  poCacheControl :: string

datatype command =
    GetSecretValueCommand GetSecretValueCommandInput
  | PutSecretValueCommand PutSecretValueCommandInput
  | UpdateSecretVersionStageCommand UpdateSecretVersionStageCommandInput
  | GetObjectCommand GetObjectCommandInput
  | PutObjectCommand PutObjectCommandInput

datatype CryptoKey = CryptoKey string

record GenerateKeyPairResult =
  privateKey :: CryptoKey
  publicKey :: CryptoKey

text \<open>
  Everything the code calls and does not define: the process environment, the JSON and
  date functions of the language, the two AWS clients, \<^verbatim>\<open>jose\<close> and \<^verbatim>\<open>nanoid\<close>.
  The outside world has a state of any type \<open>'w\<close>; a call that awaits or reads the clock
  takes the world and returns the next one, and may throw. Nothing is assumed about how
  the services answer.
\<close>

record 'w runtime =
  processEnv :: "string \<Rightarrow> string option"
  JSON_parse :: "string \<Rightarrow> string + jsval"
  JSON_stringify :: "jsval \<Rightarrow> string"
  JSON_stringify_indent2 :: "jsval \<Rightarrow> string"
  Date_now :: "'w \<Rightarrow> int \<times> 'w"
  Date_getTime :: "jsval \<Rightarrow> int option"
  Date_toISOString :: "int \<Rightarrow> string"
  Number_toString :: "rat \<Rightarrow> string"
  secretsClient_GetSecretValue ::
    "GetSecretValueCommandInput \<Rightarrow> 'w \<Rightarrow> (thrown + GetSecretValueResponse option) \<times> 'w"
  secretsClient_PutSecretValue ::
    "PutSecretValueCommandInput \<Rightarrow> 'w \<Rightarrow> (thrown + unit) \<times> 'w"
  secretsClient_UpdateSecretVersionStage ::
    "UpdateSecretVersionStageCommandInput \<Rightarrow> 'w \<Rightarrow> (thrown + unit) \<times> 'w"
  s3Client_GetObject :: "GetObjectCommandInput \<Rightarrow> 'w \<Rightarrow> (thrown + string option) \<times> 'w"
  s3Client_PutObject :: "PutObjectCommandInput \<Rightarrow> 'w \<Rightarrow> (thrown + unit) \<times> 'w"
  jose_generateKeyPair ::
    "string \<Rightarrow> jsval \<Rightarrow> 'w \<Rightarrow> (thrown + GenerateKeyPairResult) \<times> 'w"
  jose_exportPKCS8 :: "CryptoKey \<Rightarrow> 'w \<Rightarrow> (thrown + string) \<times> 'w"
  jose_exportJWK :: "CryptoKey \<Rightarrow> 'w \<Rightarrow> (thrown + jsval) \<times> 'w"
  nanoid :: "'w \<Rightarrow> string \<times> 'w"
  jose_importPKCS8 :: "jsval \<Rightarrow> jsval \<Rightarrow> 'w \<Rightarrow> (thrown + CryptoKey) \<times> 'w"
  jose_SignJWT_sign :: "jsval \<Rightarrow> jsval \<Rightarrow> CryptoKey \<Rightarrow> 'w \<Rightarrow> (thrown + string) \<times> 'w"
  jose_createLocalJWKSet :: "jsval \<Rightarrow> thrown + jsval"
  jose_jwtVerify :: "string \<Rightarrow> jsval \<Rightarrow> 'w \<Rightarrow> (thrown + jsval) \<times> 'w"

section \<open>utils.ts: configuration\<close>

record EnvironmentConfig =
  bucketName :: string
  bucketPath :: string
  minActivationGracePeriodSeconds :: int
  maxTokenValidityDurationSeconds :: int
  minKeyCleanupGracePeriodSeconds :: int
  keySpec :: jsval

text \<open>\<^verbatim>\<open>!s\<close> for a variable of the environment: unset or the empty string.\<close>

fun unsetOrEmpty :: "string option \<Rightarrow> bool" where
  "unsetOrEmpty None = True"
| "unsetOrEmpty (Some s) = (s = [])"

definition getEnvironmentConfig :: "'w runtime \<Rightarrow> thrown + EnvironmentConfig" where
  "getEnvironmentConfig rt =
     (let bucketName = processEnv rt ''BUCKET_NAME'';
          bucketPath = processEnv rt ''BUCKET_PATH'';
          minActivationGracePeriodSecondsString =
            processEnv rt ''MIN_ACTIVATION_GRACE_PERIOD_SECONDS'';
          maxTokenValidityDurationSecondsString =
            processEnv rt ''MAX_TOKEN_VALIDITY_DURATION_SECONDS'';
          minKeyCleanupGracePeriodSecondsString =
            processEnv rt ''MIN_KEY_CLEANUP_GRACE_PERIOD_SECONDS'';
          keySpecString = processEnv rt ''KEY_SPEC''
      in
      if unsetOrEmpty bucketName then
        Inl (Error ''BUCKET_NAME environment variable is required'')
      else if unsetOrEmpty bucketPath then
        Inl (Error ''BUCKET_PATH environment variable is required'')
      else if unsetOrEmpty minActivationGracePeriodSecondsString then
        Inl (Error ''MIN_ACTIVATION_GRACE_PERIOD_SECONDS environment variable is required'')
      else if unsetOrEmpty maxTokenValidityDurationSecondsString then
        Inl (Error ''MAX_TOKEN_VALIDITY_DURATION_SECONDS environment variable is required'')
      else if unsetOrEmpty minKeyCleanupGracePeriodSecondsString then
        Inl (Error ''MIN_KEY_CLEANUP_GRACE_PERIOD_SECONDS environment variable is required'')
      else if unsetOrEmpty keySpecString then
        Inl (Error ''KEY_SPEC environment variable is required'')
      else
        (case parseInt (the minActivationGracePeriodSecondsString) of
           None \<Rightarrow> Inl (Error ''MIN_ACTIVATION_GRACE_PERIOD_SECONDS must be a valid number'')
         | Some minActivationSeconds \<Rightarrow>
        (case parseInt (the maxTokenValidityDurationSecondsString) of
           None \<Rightarrow> Inl (Error ''MAX_TOKEN_VALIDITY_DURATION_SECONDS must be a valid number'')
         | Some maxTokenValiditySeconds \<Rightarrow>
        (case parseInt (the minKeyCleanupGracePeriodSecondsString) of
           None \<Rightarrow> Inl (Error ''MIN_KEY_CLEANUP_GRACE_PERIOD_SECONDS must be a valid number'')
         | Some minKeyCleanupSeconds \<Rightarrow>
        (case JSON_parse rt (the keySpecString) of
           Inl syntaxError \<Rightarrow> Inl (Error ''Invalid KEY_SPEC environment variable'')
         | Inr parsedKeySpec \<Rightarrow>
             Inr \<lparr> bucketName = the bucketName,
                   bucketPath = the bucketPath,
                   minActivationGracePeriodSeconds = minActivationSeconds,
                   maxTokenValidityDurationSeconds = maxTokenValiditySeconds,
                   minKeyCleanupGracePeriodSeconds = minKeyCleanupSeconds,
                   keySpec = parsedKeySpec \<rparr>)))))"

section \<open>Awaited calls in sequence\<close>

text \<open>
  An \<^verbatim>\<open>async\<close> function is a function from the state to an outcome and the next
  state. The state pairs the outside world with the list of commands sent so far to the
  two clients, oldest first, which is what the tests read back with \<^verbatim>\<open>commandCalls\<close>.
  \<open>bindIO\<close> is \<^verbatim>\<open>await\<close> followed by the rest of the body: a thrown value ends the
  body. \<open>tryCatch\<close> is \<^verbatim>\<open>try { ... } catch (error) { ... }\<close>.
\<close>

type_synonym 'w state = "'w \<times> command list"

type_synonym ('w, 'a) io = "'w state \<Rightarrow> (thrown + 'a) \<times> 'w state"

definition returnIO :: "'a \<Rightarrow> ('w, 'a) io" where
  "returnIO x s = (Inr x, s)"

definition throwIO :: "thrown \<Rightarrow> ('w, 'a) io" where
  "throwIO e s = (Inl e, s)"

definition bindIO :: "('w, 'a) io \<Rightarrow> ('a \<Rightarrow> ('w, 'b) io) \<Rightarrow> ('w, 'b) io" where
  "bindIO m f s = (case m s of (Inl e, s') \<Rightarrow> (Inl e, s') | (Inr x, s') \<Rightarrow> f x s')"

definition tryCatch :: "('w, 'a) io \<Rightarrow> (thrown \<Rightarrow> ('w, 'a) io) \<Rightarrow> ('w, 'a) io" where
  "tryCatch m h s = (case m s of (Inl e, s') \<Rightarrow> h e s' | (Inr x, s') \<Rightarrow> (Inr x, s'))"

definition liftE :: "thrown + 'a \<Rightarrow> ('w, 'a) io" where
  "liftE r s = (r, s)"

text \<open>\<^verbatim>\<open>client.send(command)\<close>: the command is recorded, then the service answers.\<close>

definition send :: "command \<Rightarrow> ('w \<Rightarrow> (thrown + 'a) \<times> 'w) \<Rightarrow> ('w, 'a) io" where
  "send c op s = (case op (fst s) of (r, w') \<Rightarrow> (r, (w', snd s @ [c])))"

text \<open>A library call that may throw, and one that cannot.\<close>

definition world :: "('w \<Rightarrow> (thrown + 'a) \<times> 'w) \<Rightarrow> ('w, 'a) io" where
  "world op s = (case op (fst s) of (r, w') \<Rightarrow> (r, (w', snd s)))"

definition worldPure :: "('w \<Rightarrow> 'a \<times> 'w) \<Rightarrow> ('w, 'a) io" where
  "worldPure op s = (case op (fst s) of (x, w') \<Rightarrow> (Inr x, (w', snd s)))"

text \<open>\<^verbatim>\<open>Date.now()\<close>, and the instant of \<^verbatim>\<open>new Date()\<close>.\<close>

definition now :: "'w runtime \<Rightarrow> ('w, int) io" where
  "now rt = worldPure (Date_now rt)"

text \<open>
  \<^verbatim>\<open>(Date.now() - new Date(v).getTime()) / 1000\<close> once \<^verbatim>\<open>Date.now()\<close> has returned
  \<open>n\<close>: \<^verbatim>\<open>NaN\<close> when \<open>v\<close> is not a date.
\<close>

definition secondsSince :: "'w runtime \<Rightarrow> int \<Rightarrow> jsval \<Rightarrow> jsnum" where
  "secondsSince rt n v =
     (case Date_getTime rt v of None \<Rightarrow> NaN | Some t \<Rightarrow> Fin (of_int (n - t) / 1000))"

text \<open>\<^verbatim>\<open>x < y\<close> and \<^verbatim>\<open>x <= y\<close> for a number \<open>x\<close> and a whole number \<open>y\<close>; false on \<^verbatim>\<open>NaN\<close>.\<close>

fun jsLess :: "jsnum \<Rightarrow> int \<Rightarrow> bool" where
  "jsLess NaN y = False"
| "jsLess (Fin x) y = (x < of_int y)"

fun jsLessEq :: "jsnum \<Rightarrow> int \<Rightarrow> bool" where
  "jsLessEq NaN y = False"
| "jsLessEq (Fin x) y = (x \<le> of_int y)"

text \<open>\<^verbatim>\<open>!x\<close> for a number \<open>x\<close>: true on \<^verbatim>\<open>NaN\<close> and on \<open>0\<close>.\<close>

fun falsyNumber :: "jsnum \<Rightarrow> bool" where
  "falsyNumber NaN = True"
| "falsyNumber (Fin x) = (x = 0)"

section \<open>utils.ts: the secret store, the object store, the JWKS builder\<close>

record SecretVersion =
  VersionId :: string
  VersionStages :: "string list option"
  secretValue :: jsval

fun isNamedError :: "string \<Rightarrow> thrown \<Rightarrow> bool" where
  "isNamedError n (ErrorObj n' m) = (n' = n)"
| "isNamedError n (NonError s) = False"

definition getSecretValue ::
  "'w runtime \<Rightarrow> GetSecretValueCommandInput \<Rightarrow> ('w, SecretVersion option) io" where
  "getSecretValue rt input =
     tryCatch
       (bindIO (send (GetSecretValueCommand input) (secretsClient_GetSecretValue rt input))
          (\<lambda>response.
             case response of
               None \<Rightarrow> returnIO None
             | Some r \<Rightarrow>
                 if unsetOrEmpty (respSecretString r) then returnIO None
                 else if unsetOrEmpty (respVersionId r) then
                   throwIO (Error ''Secret version has no VersionId'')
                 else
                   (case JSON_parse rt (the (respSecretString r)) of
                      Inl m \<Rightarrow> throwIO (SyntaxError m)
                    | Inr v \<Rightarrow>
                        returnIO (Some \<lparr> VersionId = the (respVersionId r),
                                         VersionStages = respVersionStages r,
                                         secretValue = v \<rparr>))))
       (\<lambda>error.
          if isNamedError ''ResourceNotFoundException'' error then returnIO None
          else throwIO error)"

definition putSecretValue ::
  "'w runtime \<Rightarrow> string \<Rightarrow> string \<Rightarrow> string list \<Rightarrow> jsval \<Rightarrow> ('w, unit) io" where
  "putSecretValue rt secretId clientRequestToken versionStages value =
     (let commandInput = \<lparr> psvSecretId = secretId,
                            psvClientRequestToken = clientRequestToken,
                            psvVersionStages = versionStages,
                            psvSecretString = JSON_stringify rt value \<rparr>
      in send (PutSecretValueCommand commandInput) (secretsClient_PutSecretValue rt commandInput))"

definition getJwksFromS3 :: "'w runtime \<Rightarrow> string \<Rightarrow> string \<Rightarrow> ('w, jsval) io" where
  "getJwksFromS3 rt bucket key =
     (let commandInput = \<lparr> goBucket = bucket, goKey = key \<rparr> in
      tryCatch
        (bindIO (send (GetObjectCommand commandInput) (s3Client_GetObject rt commandInput))
           (\<lambda>body.
              if unsetOrEmpty body then throwIO (Error ''Empty response from S3'')
              else
                (case JSON_parse rt (the body) of
                   Inl m \<Rightarrow> throwIO (SyntaxError m)
                 | Inr v \<Rightarrow> returnIO v)))
        (\<lambda>error.
           if isNamedError ''NoSuchKey'' error then returnIO (Obj [(''keys'', Arr [])])
           else throwIO error))"

definition updateJwksFile ::
  "'w runtime \<Rightarrow> string \<Rightarrow> string \<Rightarrow> jsval \<Rightarrow> ('w, jsval) io" where
  "updateJwksFile rt bucket key jwksDocument =
     (let commandInput = \<lparr> poBucket = bucket,
                            poKey = key,
                            poBody = JSON_stringify_indent2 rt jwksDocument,
                            poContentType = ''application/json'',
                            poCacheControl = ''public, max-age=3600'' \<rparr>
      in bindIO (send (PutObjectCommand commandInput) (s3Client_PutObject rt commandInput))
           (\<lambda>_. returnIO jwksDocument))"

text \<open>An override that is left out is \<^verbatim>\<open>undefined\<close>.\<close>

record BuildJwksOptions =
  nextSecret :: jsval
  previousSecret :: jsval
  currentSecret :: jsval

definition noOptions :: BuildJwksOptions where
  "noOptions = \<lparr> nextSecret = Undefined, previousSecret = Undefined, currentSecret = Undefined \<rparr>"

definition stageInput :: "string \<Rightarrow> string \<Rightarrow> GetSecretValueCommandInput" where
  "stageInput secretId versionStage =
     \<lparr> gsvSecretId = secretId, gsvVersionId = None, gsvVersionStage = Some versionStage \<rparr>"

definition getJwk :: "'w runtime \<Rightarrow> string \<Rightarrow> jsval \<Rightarrow> string \<Rightarrow> ('w, jsval) io" where
  "getJwk rt secretId override versionStage =
     (if \<not> nullish override then returnIO override
      else bindIO (getSecretValue rt (stageInput secretId versionStage))
             (\<lambda>r. returnIO (case r of None \<Rightarrow> Undefined | Some sv \<Rightarrow> secretValue sv)))"

definition addJwk :: "jsval \<Rightarrow> jsval list \<Rightarrow> jsval list" where
  "addJwk jwk keys =
     (let publicJwk = getProp jwk ''publicJwk'';
          alg = getProp jwk ''alg'';
          kid = getProp jwk ''kid''
      in keys @ [Obj (objSet (objSet (objSet (objSpread publicJwk) ''kid'' kid) ''alg'' alg)
                        ''use'' (Str ''sig''))])"

definition currentActivatedAgoSeconds :: "'w runtime \<Rightarrow> jsval \<Rightarrow> ('w, jsnum option) io" where
  "currentActivatedAgoSeconds rt current =
     (if truthy (optProp current ''activatedAt'') then
        bindIO (now rt)
          (\<lambda>n. returnIO (Some (secondsSince rt n (getProp current ''activatedAt''))))
      else returnIO None)"

definition buildJwks :: "'w runtime \<Rightarrow> string \<Rightarrow> BuildJwksOptions \<Rightarrow> ('w, jsval) io" where
  "buildJwks rt secretId options =
     bindIO (liftE (getEnvironmentConfig rt)) (\<lambda>config.
     bindIO (getJwk rt secretId (nextSecret options) ''NEXT'') (\<lambda>next.
     let keys1 = (if truthy next then addJwk next [] else []) in
     bindIO (getJwk rt secretId (currentSecret options) ''AWSCURRENT'') (\<lambda>current.
     let keys2 = (if truthy (optProp current ''activatedAt'') then addJwk current keys1
                  else keys1) in
     bindIO (getJwk rt secretId (previousSecret options) ''AWSPREVIOUS'') (\<lambda>previous.
     if truthy (optProp previous ''activatedAt'') then
       bindIO (currentActivatedAgoSeconds rt current) (\<lambda>ago.
       if (case ago of
             None \<Rightarrow> True
           | Some seconds \<Rightarrow>
               falsyNumber seconds \<or>
               jsLessEq seconds
                 (maxTokenValidityDurationSeconds config +
                  minKeyCleanupGracePeriodSeconds config))
       then returnIO (Obj [(''keys'', Arr (addJwk previous keys2))])
       else returnIO (Obj [(''keys'', Arr keys2)]))
     else returnIO (Obj [(''keys'', Arr keys2)])))))"

definition regenerateAndPublishJwks ::
  "'w runtime \<Rightarrow> string \<Rightarrow> BuildJwksOptions \<Rightarrow> ('w, jsval) io" where
  "regenerateAndPublishJwks rt secretId options =
     bindIO (liftE (getEnvironmentConfig rt)) (\<lambda>config.
     bindIO (buildJwks rt secretId options) (\<lambda>jwks.
     bindIO (updateJwksFile rt (bucketName config) (bucketPath config) jwks) (\<lambda>_.
     returnIO jwks)))"

section \<open>create-secret.ts\<close>

definition generateJwksKeyPair :: "'w runtime \<Rightarrow> jsval \<Rightarrow> ('w, jsval) io" where
  "generateJwksKeyPair rt spec =
     (if nullish spec then
        throwIO (TypeError ''Cannot destructure property of keySpec'')
      else
        let algorithm = getProp spec ''algorithm'';
            crv = getProp spec ''crv'';
            modulusLength = getProp spec ''modulusLength''
        in
        case algorithm of
          Str a \<Rightarrow>
            bindIO
              (if startsWith a ''RS'' \<or> startsWith a ''PS'' then
                 world (jose_generateKeyPair rt a
                   (Obj [(''modulusLength'',
                            if truthy modulusLength then modulusLength else Num 2048),
                         (''extractable'', Bool True)]))
               else if startsWith a ''ES'' then
                 world (jose_generateKeyPair rt a
                   (Obj [(''crv'', crv), (''extractable'', Bool True)]))
               else throwIO (Error (''Unsupported algorithm: '' @ a)))
              (\<lambda>keyPair.
            bindIO (worldPure (nanoid rt)) (\<lambda>kid.
            bindIO (world (jose_exportPKCS8 rt (privateKey keyPair))) (\<lambda>privateKeyPem.
            bindIO (world (jose_exportJWK rt (publicKey keyPair))) (\<lambda>publicKeyJwk.
            bindIO (now rt) (\<lambda>created.
            returnIO (Obj [(''privateKeyPem'', Str privateKeyPem),
                           (''publicKeyJwk'', publicKeyJwk),
                           (''kid'', Str kid),
                           (''alg'', Str a),
                           (''createdAt'', Str (Date_toISOString rt created))]))))))
        | _ \<Rightarrow> throwIO (TypeError ''algorithm.startsWith is not a function''))"

text \<open>\<^verbatim>\<open>currentSecret?.secretValue\<close>.\<close>

definition secretValueOf :: "SecretVersion option \<Rightarrow> jsval" where
  "secretValueOf r = (case r of None \<Rightarrow> Undefined | Some sv \<Rightarrow> secretValue sv)"

text \<open>
  In \<^verbatim>\<open>currentSecret?.secretValue.activatedAt\<close> only the first step is optional, so
  a current version whose secret string is the JSON text \<^verbatim>\<open>null\<close> throws.
\<close>

definition createSecret :: "'w runtime \<Rightarrow> string \<Rightarrow> string \<Rightarrow> ('w, unit) io" where
  "createSecret rt secretId token =
     bindIO (liftE (getEnvironmentConfig rt)) (\<lambda>config.
     bindIO (getSecretValue rt (stageInput secretId ''AWSCURRENT'')) (\<lambda>current.
     bindIO (getSecretValue rt (stageInput secretId ''NEXT'')) (\<lambda>next.
     bindIO
       (case next of
          None \<Rightarrow>
            (case current of
               None \<Rightarrow> generateJwksKeyPair rt (keySpec config)
             | Some currentVersion \<Rightarrow>
                 if nullish (secretValue currentVersion) then
                   throwIO (TypeError ''Cannot read properties of null (reading activatedAt)'')
                 else if truthy (getProp (secretValue currentVersion) ''activatedAt'') then
                   bindIO (generateJwksKeyPair rt (keySpec config)) (\<lambda>newNextKeyPair.
                   bindIO (putSecretValue rt secretId
                             (''next-key-'' @ VersionId currentVersion)
                             [''NEXT''] newNextKeyPair) (\<lambda>_.
                   bindIO (regenerateAndPublishJwks rt secretId
                             \<lparr> nextSecret = newNextKeyPair,
                               previousSecret = Undefined,
                               currentSecret = secretValue currentVersion \<rparr>) (\<lambda>_.
                   throwIO (Error ''Created NEXT key. Aborting rotation as requested.''))))
                 else generateJwksKeyPair rt (keySpec config))
        | Some nextVersion \<Rightarrow>
            let nextSecretValue = secretValue nextVersion in
            if nullish nextSecretValue then
              throwIO (TypeError ''Cannot read properties of null (reading createdAt)'')
            else
              bindIO (now rt) (\<lambda>n.
              let ageInSeconds = secondsSince rt n (getProp nextSecretValue ''createdAt'') in
              if jsLess ageInSeconds (minActivationGracePeriodSeconds config) then
                throwIO (Error (''Next key is too new ('' @
                  (case ageInSeconds of Fin age \<Rightarrow> Number_toString rt age | NaN \<Rightarrow> ''NaN'') @
                  ''s < '' @
                  Number_toString rt (of_int (minActivationGracePeriodSeconds config)) @
                  ''s). Aborting rotation.''))
              else returnIO nextSecretValue))
       (\<lambda>nextKeyData.
     bindIO (now rt) (\<lambda>activated.
     let pendingSecretValue =
           Obj (objSet (objSpread nextKeyData) ''activatedAt''
                  (Str (Date_toISOString rt activated))) in
     bindIO (putSecretValue rt secretId token [''AWSPENDING''] pendingSecretValue) (\<lambda>_.
     bindIO (generateJwksKeyPair rt (keySpec config)) (\<lambda>newNextKeyPair.
     bindIO (putSecretValue rt secretId (''next-key-'' @ token) [''NEXT''] newNextKeyPair) (\<lambda>_.
     bindIO (regenerateAndPublishJwks rt secretId
               \<lparr> nextSecret = newNextKeyPair,
                 previousSecret = secretValueOf current,
                 currentSecret = pendingSecretValue \<rparr>) (\<lambda>_.
     returnIO ())))))))))"

section \<open>test-secret.ts\<close>

text \<open>\<^verbatim>\<open>v.length\<close> for a \<open>v\<close> that is neither \<^verbatim>\<open>null\<close> nor \<^verbatim>\<open>undefined\<close>.\<close>

fun lengthOf :: "jsval \<Rightarrow> jsval" where
  "lengthOf (Arr xs) = Num (of_nat (length xs))"
| "lengthOf (Str s) = Num (of_nat (length s))"
| "lengthOf v = getProp v ''length''"

definition pendingInput :: "string \<Rightarrow> string \<Rightarrow> GetSecretValueCommandInput" where
  "pendingInput secretId token =
     \<lparr> gsvSecretId = secretId, gsvVersionId = Some token,
       gsvVersionStage = Some ''AWSPENDING'' \<rparr>"

text \<open>
  The signing block of \<open>testSecret\<close>: the payload is built from two readings of the
  clock, the private key is imported, and the builder chain of \<^verbatim>\<open>SignJWT\<close> ends in
  \<^verbatim>\<open>sign\<close>.
\<close>

definition testPayload :: "int \<Rightarrow> int \<Rightarrow> jsval" where
  "testPayload iatNow expNow =
     Obj [(''sub'', Str ''test-subject''),
          (''iat'', Num (of_int (iatNow div 1000))),
          (''exp'', Num (of_int (expNow div 1000) + 300)),
          (''test'', Bool True)]"

definition signTestJwt :: "'w runtime \<Rightarrow> jsval \<Rightarrow> ('w, string) io" where
  "signTestJwt rt pendingSecretValue =
     (let privateKey = getProp pendingSecretValue ''privateKey'';
          alg = getProp pendingSecretValue ''alg'';
          kid = getProp pendingSecretValue ''kid''
      in
      bindIO (now rt) (\<lambda>iatNow.
      bindIO (now rt) (\<lambda>expNow.
      bindIO (world (jose_importPKCS8 rt privateKey alg)) (\<lambda>privateKeyObject.
      world (jose_SignJWT_sign rt (testPayload iatNow expNow)
               (Obj [(''alg'', alg), (''kid'', kid)]) privateKeyObject)))))"

definition testSecret :: "'w runtime \<Rightarrow> string \<Rightarrow> string \<Rightarrow> ('w, unit) io" where
  "testSecret rt secretId token =
     bindIO (getSecretValue rt (pendingInput secretId token)) (\<lambda>pendingSecret.
     case pendingSecret of
       None \<Rightarrow> throwIO (Error ''AWSPENDING version not found'')
     | Some pending \<Rightarrow>
         if nullish (secretValue pending) then
           throwIO (TypeError ''Cannot destructure property of pendingSecret.secretValue'')
         else
           bindIO (signTestJwt rt (secretValue pending)) (\<lambda>jwt.
           bindIO (liftE (getEnvironmentConfig rt)) (\<lambda>config.
           bindIO (getJwksFromS3 rt (bucketName config) (bucketPath config)) (\<lambda>jwksDocument.
           if nullish jwksDocument then
             throwIO (TypeError ''Cannot read properties of null (reading keys)'')
           else if \<not> truthy (getProp jwksDocument ''keys'') \<or>
                   lengthOf (getProp jwksDocument ''keys'') = Num 0 then
             throwIO (Error ''No keys found in JWKS document'')
           else
             bindIO (liftE (jose_createLocalJWKSet rt jwksDocument)) (\<lambda>jwks.
             tryCatch
               (bindIO (world (jose_jwtVerify rt jwt jwks)) (\<lambda>payload.
                if nullish payload then
                  throwIO (TypeError ''Cannot read properties of undefined (reading test)'')
                else if getProp payload ''test'' \<noteq> Bool True then
                  throwIO (Error ''Test payload verification failed'')
                else returnIO ()))
               (\<lambda>error.
                  throwIO (Error (''JWT verification failed: '' @ thrownToString error))))))))"

section \<open>finish-secret.ts\<close>

definition finishSecret :: "'w runtime \<Rightarrow> string \<Rightarrow> string \<Rightarrow> ('w, unit) io" where
  "finishSecret rt secretId token =
     bindIO (getSecretValue rt (stageInput secretId ''AWSCURRENT'')) (\<lambda>current.
     case current of
       None \<Rightarrow> throwIO (Error ''Current version not found'')
     | Some currentVersion \<Rightarrow>
     bindIO (getSecretValue rt (pendingInput secretId token)) (\<lambda>pendingSecret.
     case pendingSecret of
       None \<Rightarrow> throwIO (Error ''Pending version not found'')
     | Some pending \<Rightarrow>
     let commandInput = \<lparr> usvSecretId = secretId,
                            usvVersionStage = ''AWSCURRENT'',
                            usvMoveToVersionId = VersionId pending,
                            usvRemoveFromVersionId = VersionId currentVersion \<rparr> in
     bindIO (send (UpdateSecretVersionStageCommand commandInput)
               (secretsClient_UpdateSecretVersionStage rt commandInput)) (\<lambda>_.
     bindIO (regenerateAndPublishJwks rt secretId
               \<lparr> nextSecret = Undefined,
                 previousSecret = secretValue currentVersion,
                 currentSecret = secretValue pending \<rparr>) (\<lambda>_.
     returnIO ()))))"

section \<open>cleanup-expired-keys.ts\<close>

definition cleanupExpiredKeys :: "'w runtime \<Rightarrow> string \<Rightarrow> ('w, unit) io" where
  "cleanupExpiredKeys rt secretArn =
     bindIO (getSecretValue rt (stageInput secretArn ''AWSCURRENT'')) (\<lambda>current.
     case current of
       None \<Rightarrow> returnIO ()
     | Some currentVersion \<Rightarrow>
         tryCatch
           (bindIO (regenerateAndPublishJwks rt secretArn
                      \<lparr> nextSecret = Undefined,
                        previousSecret = Undefined,
                        currentSecret = secretValue currentVersion \<rparr>) (\<lambda>_.
            returnIO ()))
           (\<lambda>error. throwIO error))"

section \<open>Vocabulary of the statements\<close>

text \<open>
  The commands of a run that change something: a put or a stage move on the secret
  store, a put on the object store. \<open>sent\<close> is the command list after a run, and
  \<open>noWrites m\<close> says that \<open>m\<close> never adds a write, whatever the services answer.
\<close>

fun isWrite :: "command \<Rightarrow> bool" where
  "isWrite (GetSecretValueCommand i) = False"
| "isWrite (PutSecretValueCommand i) = True"
| "isWrite (UpdateSecretVersionStageCommand i) = True"
| "isWrite (GetObjectCommand i) = False"
| "isWrite (PutObjectCommand i) = True"

definition writes :: "command list \<Rightarrow> command list" where
  "writes cs = filter isWrite cs"

definition sent :: "(thrown + 'a) \<times> 'w state \<Rightarrow> command list" where
  "sent outcome = snd (snd outcome)"

definition noWrites :: "('w, 'a) io \<Rightarrow> bool" where
  "noWrites m = (\<forall>s. writes (sent (m s)) = writes (snd s))"

text \<open>The keys that one call of \<open>addJwk\<close> contributes when its guard holds.\<close>

definition entryIf :: "bool \<Rightarrow> jsval \<Rightarrow> jsval list" where
  "entryIf include jwk = (if include then addJwk jwk [] else [])"

text \<open>The inputs of the commands that the steps send.\<close>

definition jwksPutInput ::
  "'w runtime \<Rightarrow> EnvironmentConfig \<Rightarrow> jsval \<Rightarrow> PutObjectCommandInput" where
  "jwksPutInput rt config jwks =
     \<lparr> poBucket = bucketName config, poKey = bucketPath config,
       poBody = JSON_stringify_indent2 rt jwks,
       poContentType = ''application/json'',
       poCacheControl = ''public, max-age=3600'' \<rparr>"

definition secretPutInput ::
  "'w runtime \<Rightarrow> string \<Rightarrow> string \<Rightarrow> string \<Rightarrow> jsval \<Rightarrow> PutSecretValueCommandInput" where
  "secretPutInput rt secretId clientRequestToken versionStage value =
     \<lparr> psvSecretId = secretId, psvClientRequestToken = clientRequestToken,
       psvVersionStages = [versionStage], psvSecretString = JSON_stringify rt value \<rparr>"

definition moveInput ::
  "string \<Rightarrow> string \<Rightarrow> string \<Rightarrow> UpdateSecretVersionStageCommandInput" where
  "moveInput secretId fromVersion toVersion =
     \<lparr> usvSecretId = secretId, usvVersionStage = ''AWSCURRENT'',
       usvMoveToVersionId = toVersion, usvRemoveFromVersionId = fromVersion \<rparr>"

text \<open>The variables that the loader reads, and what a complete environment is.\<close>

definition requiredVariables :: "string list" where
  "requiredVariables =
     [''BUCKET_NAME'', ''BUCKET_PATH'', ''MIN_ACTIVATION_GRACE_PERIOD_SECONDS'',
      ''MAX_TOKEN_VALIDITY_DURATION_SECONDS'', ''MIN_KEY_CLEANUP_GRACE_PERIOD_SECONDS'',
      ''KEY_SPEC'']"

definition numericVariables :: "string list" where
  "numericVariables =
     [''MIN_ACTIVATION_GRACE_PERIOD_SECONDS'', ''MAX_TOKEN_VALIDITY_DURATION_SECONDS'',
      ''MIN_KEY_CLEANUP_GRACE_PERIOD_SECONDS'']"

definition configComplete :: "'w runtime \<Rightarrow> bool" where
  "configComplete rt =
     (list_all (\<lambda>v. \<not> unsetOrEmpty (processEnv rt v)) requiredVariables \<and>
      list_all (\<lambda>v. parseInt (the (processEnv rt v)) \<noteq> None) numericVariables \<and>
      \<not> isl (JSON_parse rt (the (processEnv rt ''KEY_SPEC''))))"

text \<open>
  The cleanup as the specification words it, for comparison with the code: read
  AWSCURRENT, stop when it is absent, otherwise rebuild from the store with no override
  and republish.
\<close>

definition cleanupWithoutOverrides :: "'w runtime \<Rightarrow> string \<Rightarrow> ('w, unit) io" where
  "cleanupWithoutOverrides rt secretArn =
     bindIO (getSecretValue rt (stageInput secretArn ''AWSCURRENT'')) (\<lambda>current.
     case current of
       None \<Rightarrow> returnIO ()
     | Some currentVersion \<Rightarrow>
         bindIO (regenerateAndPublishJwks rt secretArn noOptions) (\<lambda>_. returnIO ()))"

section \<open>Example runtimes\<close>

text \<open>
  A runtime in the manner of the repository's tests: the services answer from fixed
  tables and every write succeeds. The world counts the \<^verbatim>\<open>GetSecretValue\<close> commands
  answered so far, so that a store can change between two reads. The stand-in for
  \<^verbatim>\<open>JSON.stringify(document, null, 2)\<close> lists the \<^verbatim>\<open>kid\<close> of every key of the
  document, the one for \<^verbatim>\<open>JSON.stringify(secretValue)\<close> names the \<^verbatim>\<open>kid\<close> of the
  record, and \<^verbatim>\<open>importPKCS8\<close> rejects what is not a string, as \<^verbatim>\<open>jose\<close> does.
\<close>

definition kidsOf :: "jsval \<Rightarrow> string" where
  "kidsOf document =
     concat (map (\<lambda>key. (case getProp key ''kid'' of Str kid \<Rightarrow> kid | _ \<Rightarrow> ''?'') @ '';'')
               (case getProp document ''keys'' of Arr keys \<Rightarrow> keys | _ \<Rightarrow> []))"

definition recordText :: "jsval \<Rightarrow> string" where
  "recordText v = (case getProp v ''kid'' of Str kid \<Rightarrow> ''record of '' @ kid | _ \<Rightarrow> ''json'')"

text \<open>
  Records with the field names that \<open>addJwk\<close> and \<open>testSecret\<close> read, as in the tests of
  the cleanup, and a record with the field names that \<open>generateJwksKeyPair\<close> writes.
\<close>

definition keyRecord :: "string \<Rightarrow> jsval" where
  "keyRecord kid =
     Obj [(''privateKey'', Str ''private-key''), (''kid'', Str kid), (''alg'', Str ''RS256''),
          (''createdAt'', Str ''2024-01-01T00:00:00.000Z''),
          (''publicJwk'', Obj [(''kty'', Str ''RSA'')])]"

definition activatedRecord :: "string \<Rightarrow> string \<Rightarrow> jsval" where
  "activatedRecord kid activatedAt =
     Obj [(''privateKey'', Str ''private-key''), (''kid'', Str kid), (''alg'', Str ''RS256''),
          (''createdAt'', Str ''2024-01-01T00:00:00.000Z''),
          (''activatedAt'', Str activatedAt),
          (''publicJwk'', Obj [(''kty'', Str ''RSA'')])]"

definition writtenRecord :: "string \<Rightarrow> jsval" where
  "writtenRecord kid =
     Obj [(''privateKeyPem'', Str ''pem''),
          (''publicKeyJwk'',
             Obj [(''kty'', Str ''RSA''), (''n'', Str ''modulus''), (''e'', Str ''AQAB'')]),
          (''kid'', Str kid), (''alg'', Str ''RS256''),
          (''createdAt'', Str ''2024-01-01T00:00:00.000Z''),
          (''activatedAt'', Str ''2024-01-08T00:00:00.000Z'')]"

definition publishedKey :: "string \<Rightarrow> jsval" where
  "publishedKey kid =
     Obj [(''kty'', Str ''RSA''), (''kid'', Str kid), (''alg'', Str ''RS256''),
          (''use'', Str ''sig'')]"

definition testGetTime :: "jsval \<Rightarrow> int option" where
  "testGetTime v =
     (if v = Str ''2024-01-01T00:00:00.000Z'' then Some 1704067200000
      else if v = Str ''2024-01-08T00:00:00.000Z'' then Some 1704672000000
      else None)"

definition testToISOString :: "int \<Rightarrow> string" where
  "testToISOString t =
     (if t = 1704067200000 then ''2024-01-01T00:00:00.000Z''
      else if t = 1704672000000 then ''2024-01-08T00:00:00.000Z''
      else ''another instant'')"

definition testNumberToString :: "rat \<Rightarrow> string" where
  "testNumberToString x =
     (if x = 3600 then ''3600'' else if x = 604800 then ''604800'' else ''another number'')"

definition rejectNonString :: "jsval \<Rightarrow> thrown + CryptoKey" where
  "rejectNonString pkcs8 =
     (case pkcs8 of
        Str pem \<Rightarrow> Inr (CryptoKey pem)
      | _ \<Rightarrow> Inl (TypeError ''pkcs8 must be PKCS#8 formatted string''))"

definition mockRuntime ::
  "(string \<Rightarrow> string option) \<Rightarrow> (string \<Rightarrow> string + jsval) \<Rightarrow> int \<Rightarrow> (jsval \<Rightarrow> int option) \<Rightarrow>
   (GetSecretValueCommandInput \<Rightarrow> nat \<Rightarrow> thrown + GetSecretValueResponse option) \<Rightarrow>
   (thrown + string option) \<Rightarrow> (thrown + jsval) \<Rightarrow> nat runtime" where
  "mockRuntime env parse clock getTime getSecret getObject verify =
     \<lparr> processEnv = env,
       JSON_parse = parse,
       JSON_stringify = recordText,
       JSON_stringify_indent2 = kidsOf,
       Date_now = (\<lambda>w. (clock, w)),
       Date_getTime = getTime,
       Date_toISOString = testToISOString,
       Number_toString = testNumberToString,
       secretsClient_GetSecretValue = (\<lambda>input w. (getSecret input w, Suc w)),
       secretsClient_PutSecretValue = (\<lambda>input w. (Inr (), w)),
       secretsClient_UpdateSecretVersionStage = (\<lambda>input w. (Inr (), w)),
       s3Client_GetObject = (\<lambda>input w. (getObject, w)),
       s3Client_PutObject = (\<lambda>input w. (Inr (), w)),
       jose_generateKeyPair = (\<lambda>alg options w.
         (Inr \<lparr> privateKey = CryptoKey ''private'', publicKey = CryptoKey ''public'' \<rparr>, w)),
       jose_exportPKCS8 = (\<lambda>k w. (Inr ''pem'', w)),
       jose_exportJWK = (\<lambda>k w.
         (Inr (Obj [(''kty'', Str ''RSA''), (''n'', Str ''modulus''), (''e'', Str ''AQAB'')]), w)),
       nanoid = (\<lambda>w. (''new-kid'', w)),
       jose_importPKCS8 = (\<lambda>pkcs8 alg w. (rejectNonString pkcs8, w)),
       jose_SignJWT_sign = (\<lambda>payload header k w. (Inr ''jwt'', w)),
       jose_createLocalJWKSet = (\<lambda>doc. Inr doc),
       jose_jwtVerify = (\<lambda>jwt jwks w. (verify, w)) \<rparr>"

definition testEnv :: "string \<Rightarrow> string option" where
  "testEnv =
     [''BUCKET_NAME'' \<mapsto> ''test-bucket'',
      ''BUCKET_PATH'' \<mapsto> ''.well-known/jwks.json'',
      ''MIN_ACTIVATION_GRACE_PERIOD_SECONDS'' \<mapsto> ''604800'',
      ''MAX_TOKEN_VALIDITY_DURATION_SECONDS'' \<mapsto> ''3600'',
      ''MIN_KEY_CLEANUP_GRACE_PERIOD_SECONDS'' \<mapsto> ''21600'',
      ''KEY_SPEC'' \<mapsto> ''{algorithm:RS256}'']"

definition testConfig :: EnvironmentConfig where
  "testConfig =
     \<lparr> bucketName = ''test-bucket'', bucketPath = ''.well-known/jwks.json'',
       minActivationGracePeriodSeconds = 604800, maxTokenValidityDurationSeconds = 3600,
       minKeyCleanupGracePeriodSeconds = 21600,
       keySpec = Obj [(''algorithm'', Str ''RS256'')] \<rparr>"

text \<open>The same environment with the cleanup grace period left out.\<close>

definition testEnvWithoutCleanupGrace :: "string \<Rightarrow> string option" where
  "testEnvWithoutCleanupGrace = testEnv(''MIN_KEY_CLEANUP_GRACE_PERIOD_SECONDS'' := None)"


definition testParse :: "string \<Rightarrow> string + jsval" where
  "testParse text =
     (if text = ''{algorithm:RS256}'' then Inr (Obj [(''algorithm'', Str ''RS256'')])
      else if text = ''{}'' then Inr (Obj [])
      else if text = ''next-record'' then Inr (keyRecord ''next-kid'')
      else if text = ''initial-record'' then Inr (keyRecord ''initial-kid'')
      else if text = ''retired-record'' then Inr (keyRecord ''retired-kid'')
      else if text = ''current-record'' then
        Inr (activatedRecord ''current-kid'' ''2024-01-01T00:00:00.000Z'')
      else if text = ''rotated-record'' then
        Inr (activatedRecord ''rotated-kid'' ''2024-01-01T00:00:00.000Z'')
      else if text = ''pending-record'' then Inr (writtenRecord ''pending-kid'')
      else if text = ''signing-record'' then
        Inr (activatedRecord ''pending-kid'' ''2024-01-08T00:00:00.000Z'')
      else if text = ''other-jwks'' then
        Inr (Obj [(''keys'', Arr [publishedKey ''different-kid''])])
      else if text = ''pending-jwks'' then
        Inr (Obj [(''keys'', Arr [publishedKey ''pending-kid''])])
      else Inl ''Unexpected token'')"

definition notFound :: thrown where
  "notFound =
     ErrorObj ''ResourceNotFoundException'' ''Secrets Manager can not find the specified secret''"

definition noSuchKey :: thrown where
  "noSuchKey = ErrorObj ''NoSuchKey'' ''The specified key does not exist.''"

text \<open>A store that answers by secret name, one name for each kind of answer.\<close>

definition answersBySecretId ::
  "GetSecretValueCommandInput \<Rightarrow> nat \<Rightarrow> thrown + GetSecretValueResponse option" where
  "answersBySecretId input reads =
     (if gsvSecretId input = ''missing'' then Inl notFound
      else if gsvSecretId input = ''unreachable'' then Inl (Error ''AWS Error'')
      else if gsvSecretId input = ''empty'' then
        Inr (Some \<lparr> respSecretString = Some [], respVersionId = Some ''version-1'',
                    respVersionStages = Some [''AWSCURRENT''] \<rparr>)
      else if gsvSecretId input = ''no-version-id'' then
        Inr (Some \<lparr> respSecretString = Some ''{}'', respVersionId = None,
                    respVersionStages = Some [''AWSCURRENT''] \<rparr>)
      else Inr None)"

definition storeRuntime :: "nat runtime" where
  "storeRuntime =
     mockRuntime testEnv testParse 0 (\<lambda>v. None) answersBySecretId (Inr None) (Inr Null)"

text \<open>
  A store that answers by stage from a table of version id and secret string; a command
  that names a version id is answered only for that version.
\<close>

definition stagedStore ::
  "(string \<Rightarrow> (string \<times> string) option) \<Rightarrow>
   GetSecretValueCommandInput \<Rightarrow> nat \<Rightarrow> thrown + GetSecretValueResponse option" where
  "stagedStore table input reads =
     (case gsvVersionStage input of
        None \<Rightarrow> Inl notFound
      | Some stage \<Rightarrow>
          (case table stage of
             None \<Rightarrow> Inl notFound
           | Some (versionId, text) \<Rightarrow>
               if gsvVersionId input = None \<or> gsvVersionId input = Some versionId then
                 Inr (Some \<lparr> respSecretString = Some text, respVersionId = Some versionId,
                             respVersionStages = Some [stage] \<rparr>)
               else Inl notFound))"

definition rotationRuntime :: "(string \<Rightarrow> (string \<times> string) option) \<Rightarrow> int \<Rightarrow> nat runtime" where
  "rotationRuntime table clock =
     mockRuntime testEnv testParse clock testGetTime (stagedStore table) (Inl noSuchKey)
       (Inr Null)"

text \<open>An empty store, and a builder that is given every record as an override.\<close>

definition builderRuntime :: "(string \<Rightarrow> string option) \<Rightarrow> int \<Rightarrow> nat runtime" where
  "builderRuntime env clock =
     mockRuntime env testParse clock testGetTime (stagedStore Map.empty) (Inr None) (Inr Null)"


text \<open>The stores of the examples.\<close>

definition initialStore :: "string \<Rightarrow> (string \<times> string) option" where
  "initialStore =
     [''NEXT'' \<mapsto> (''next-version-id'', ''next-record''),
      ''AWSCURRENT'' \<mapsto> (''initial-version-id'', ''initial-record''),
      ''AWSPREVIOUS'' \<mapsto> (''retired-version-id'', ''retired-record'')]"

definition activeStore :: "string \<Rightarrow> (string \<times> string) option" where
  "activeStore = [''AWSCURRENT'' \<mapsto> (''current-version-id'', ''current-record'')]"

definition youngNextStore :: "string \<Rightarrow> (string \<times> string) option" where
  "youngNextStore = [''NEXT'' \<mapsto> (''next-version-id'', ''next-record'')]"

definition pendingStore :: "string \<Rightarrow> (string \<times> string) option" where
  "pendingStore =
     [''AWSCURRENT'' \<mapsto> (''current-version-id'', ''current-record''),
      ''AWSPENDING'' \<mapsto> (''token-1'', ''pending-record'')]"

definition signingStore :: "string \<Rightarrow> (string \<times> string) option" where
  "signingStore = [''AWSPENDING'' \<mapsto> (''token-1'', ''signing-record'')]"

text \<open>
  A runtime for \<open>testSecret\<close>: the pending record can sign, and the answers of the object
  store and of \<^verbatim>\<open>jwtVerify\<close> are given.
\<close>

definition verifyRuntime :: "(thrown + string option) \<Rightarrow> (thrown + jsval) \<Rightarrow> nat runtime" where
  "verifyRuntime getObject verify =
     mockRuntime testEnv testParse 1704672001000 testGetTime (stagedStore signingStore)
       getObject verify"

definition noMatchingKey :: thrown where
  "noMatchingKey =
     ErrorObj ''JWKSNoMatchingKey'' ''no applicable key found in the JSON Web Key Set''"

text \<open>
  A store in which a rotation finishes between the first read and the second: the first
  \<^verbatim>\<open>GetSecretValue\<close> command finds one record at AWSCURRENT, every later one another.
\<close>

definition changingStore ::
  "GetSecretValueCommandInput \<Rightarrow> nat \<Rightarrow> thrown + GetSecretValueResponse option" where
  "changingStore input reads =
     (if gsvVersionStage input = Some ''AWSCURRENT'' then
        (if reads = 0 then
           Inr (Some \<lparr> respSecretString = Some ''current-record'',
                       respVersionId = Some ''current-version-id'',
                       respVersionStages = Some [''AWSCURRENT''] \<rparr>)
         else
           Inr (Some \<lparr> respSecretString = Some ''rotated-record'',
                       respVersionId = Some ''rotated-version-id'',
                       respVersionStages = Some [''AWSCURRENT''] \<rparr>))
      else Inl notFound)"

definition changingRuntime :: "nat runtime" where
  "changingRuntime =
     mockRuntime testEnv testParse 1704067200000 testGetTime changingStore (Inl noSuchKey)
       (Inr Null)"

section \<open>Running the helpers\<close>

lemma not_unsetOrEmptyD: "\<not> unsetOrEmpty x \<Longrightarrow> \<exists>s. x = Some s \<and> s \<noteq> []"
  by (cases x) auto

lemma getSecretValue_run:
  assumes "secretsClient_GetSecretValue rt input (fst s) = (r, w')"
  shows "getSecretValue rt input s =
     ((case r of
         Inl e \<Rightarrow> if isNamedError ''ResourceNotFoundException'' e then Inr None else Inl e
       | Inr None \<Rightarrow> Inr None
       | Inr (Some resp) \<Rightarrow>
           if unsetOrEmpty (respSecretString resp) then Inr None
           else if unsetOrEmpty (respVersionId resp) then
             Inl (Error ''Secret version has no VersionId'')
           else (case JSON_parse rt (the (respSecretString resp)) of
                   Inl m \<Rightarrow> Inl (SyntaxError m)
                 | Inr v \<Rightarrow> Inr (Some \<lparr> VersionId = the (respVersionId resp),
                                         VersionStages = respVersionStages resp,
                                         secretValue = v \<rparr>))),
      (w', snd s @ [GetSecretValueCommand input]))"
  using assms
  by (auto simp: getSecretValue_def tryCatch_def bindIO_def send_def returnIO_def throwIO_def
      split: sum.splits option.splits)


subsection \<open>Running the sequences\<close>

lemma now_run: "Date_now rt (fst s) = (n, w') \<Longrightarrow> now rt s = (Inr n, (w', snd s))"
  by (simp add: now_def worldPure_def)


lemma getSecretValue_sent:
  "getSecretValue rt input s = (r, s') \<Longrightarrow> snd s' = snd s @ [GetSecretValueCommand input]"
  using getSecretValue_run [of rt input s "fst (secretsClient_GetSecretValue rt input (fst s))"
      "snd (secretsClient_GetSecretValue rt input (fst s))"]
  by auto


lemma buildJwks_run:
  assumes cfg: "getEnvironmentConfig rt = Inr config"
    and n: "getJwk rt secretId (nextSecret options) ''NEXT'' s0 = (Inr next, s1)"
    and c: "getJwk rt secretId (currentSecret options) ''AWSCURRENT'' s1 = (Inr current, s2)"
    and p: "getJwk rt secretId (previousSecret options) ''AWSPREVIOUS'' s2 = (Inr previous, s3)"
    and clock: "Date_now rt (fst s3) = (t, w4)"
  shows "buildJwks rt secretId options s0 =
    (Inr (Obj [(''keys'', Arr (
        entryIf (truthy next) next @
        entryIf (truthy (optProp current ''activatedAt'')) current @
        entryIf (truthy (optProp previous ''activatedAt'') \<and>
                 (\<not> truthy (optProp current ''activatedAt'') \<or>
                  falsyNumber (secondsSince rt t (getProp current ''activatedAt'')) \<or>
                  jsLessEq (secondsSince rt t (getProp current ''activatedAt''))
                    (maxTokenValidityDurationSeconds config +
                     minKeyCleanupGracePeriodSeconds config))) previous))]),
     if truthy (optProp previous ''activatedAt'') \<and> truthy (optProp current ''activatedAt'')
     then (w4, snd s3) else s3)"
  unfolding buildJwks_def
  by (simp add: cfg bindIO_def liftE_def n c p
      Let_def currentActivatedAgoSeconds_def now_run [OF clock]
      entryIf_def returnIO_def addJwk_def)


lemma regenerateAndPublishJwks_run:
  assumes cfg: "getEnvironmentConfig rt = Inr config"
    and build: "buildJwks rt secretId options s = (Inr jwks, s1)"
    and publish: "s3Client_PutObject rt (jwksPutInput rt config jwks) (fst s1) = (Inr (), w2)"
  shows "regenerateAndPublishJwks rt secretId options s =
           (Inr jwks, (w2, snd s1 @ [PutObjectCommand (jwksPutInput rt config jwks)]))"
  using assms
  by (simp add: regenerateAndPublishJwks_def bindIO_def liftE_def updateJwksFile_def Let_def
      send_def returnIO_def jwksPutInput_def)

lemma generateJwksKeyPair_shape:
  assumes "generateJwksKeyPair rt spec s = (Inr generated, s')"
  shows "\<exists>pem jwk kid alg created.
           generated = Obj [(''privateKeyPem'', Str pem), (''publicKeyJwk'', jwk),
                            (''kid'', Str kid), (''alg'', Str alg), (''createdAt'', Str created)]"
  using assms
  by (auto simp: generateJwksKeyPair_def Let_def bindIO_def returnIO_def throwIO_def
      split: if_splits jsval.splits prod.splits sum.splits)

subsection \<open>Sequences that send no write\<close>

lemma noWritesD: "noWrites m \<Longrightarrow> m s = (r, s') \<Longrightarrow> writes (snd s') = writes (snd s)"
  unfolding noWrites_def sent_def by (metis snd_conv)

lemma noWrites_returnIO: "noWrites (returnIO x)"
  by (simp add: noWrites_def returnIO_def sent_def)

lemma noWrites_throwIO: "noWrites (throwIO e)"
  by (simp add: noWrites_def throwIO_def sent_def)

lemma noWrites_liftE: "noWrites (liftE r)"
  by (simp add: noWrites_def liftE_def sent_def)

lemma noWrites_world: "noWrites (world op)"
  by (simp add: noWrites_def world_def sent_def split: prod.splits)

lemma noWrites_worldPure: "noWrites (worldPure op)"
  by (simp add: noWrites_def worldPure_def sent_def split: prod.splits)

lemma noWrites_now: "noWrites (now rt)"
  by (simp add: now_def noWrites_worldPure)

lemma noWrites_send: "\<not> isWrite c \<Longrightarrow> noWrites (send c op)"
  by (simp add: noWrites_def send_def sent_def writes_def split: prod.splits)

lemma noWrites_bindIO: "noWrites m \<Longrightarrow> (\<And>x. noWrites (f x)) \<Longrightarrow> noWrites (bindIO m f)"
  by (auto simp: noWrites_def bindIO_def sent_def split: prod.splits sum.splits)
     (metis snd_conv)+

lemma noWrites_tryCatch: "noWrites m \<Longrightarrow> (\<And>e. noWrites (h e)) \<Longrightarrow> noWrites (tryCatch m h)"
  by (auto simp: noWrites_def tryCatch_def sent_def split: prod.splits sum.splits)
     (metis snd_conv)+

lemma noWrites_if:
  "(c \<Longrightarrow> noWrites a) \<Longrightarrow> (\<not> c \<Longrightarrow> noWrites b) \<Longrightarrow> noWrites (if c then a else b)"
  by simp

lemma noWrites_getSecretValue: "noWrites (getSecretValue rt input)"
  unfolding getSecretValue_def
  by (intro noWrites_tryCatch noWrites_bindIO noWrites_send noWrites_if noWrites_returnIO
        noWrites_throwIO)
     (auto split: option.splits sum.splits intro: noWrites_returnIO noWrites_throwIO)

lemma noWrites_getJwk: "noWrites (getJwk rt secretId override versionStage)"
  unfolding getJwk_def
  by (intro noWrites_if noWrites_bindIO noWrites_returnIO noWrites_getSecretValue)

lemma noWrites_buildJwks: "noWrites (buildJwks rt secretId options)"
  unfolding buildJwks_def Let_def currentActivatedAgoSeconds_def
  by (intro noWrites_if noWrites_bindIO noWrites_returnIO noWrites_getJwk noWrites_liftE
        noWrites_now)

lemma noWrites_getJwksFromS3: "noWrites (getJwksFromS3 rt bucket key)"
  unfolding getJwksFromS3_def Let_def
  by (intro noWrites_tryCatch noWrites_bindIO noWrites_send noWrites_if noWrites_returnIO
        noWrites_throwIO)
     (auto split: option.splits sum.splits intro: noWrites_returnIO noWrites_throwIO)


subsection \<open>Evaluating the examples\<close>

lemmas eval_defs =
  buildJwks_def getJwk_def getSecretValue_def getEnvironmentConfig_def
  regenerateAndPublishJwks_def updateJwksFile_def putSecretValue_def getJwksFromS3_def
  generateJwksKeyPair_def startsWith_def
  currentActivatedAgoSeconds_def secondsSince_def addJwk_def objSpread_def optProp_def
  bindIO_def returnIO_def throwIO_def liftE_def tryCatch_def send_def world_def worldPure_def
  now_def stageInput_def pendingInput_def Let_def entryIf_def
  jwksPutInput_def secretPutInput_def moveInput_def
  mockRuntime_def rotationRuntime_def builderRuntime_def verifyRuntime_def stagedStore_def
  signTestJwt_def testPayload_def noMatchingKey_def
  testEnv_def testParse_def notFound_def noSuchKey_def testGetTime_def testToISOString_def
  testNumberToString_def rejectNonString_def kidsOf_def recordText_def
  keyRecord_def activatedRecord_def writtenRecord_def publishedKey_def
  parseInt_def isWhiteSpace_def isDigit_def digitsValue_def

lemma testConfig_loaded:
  "getEnvironmentConfig (mockRuntime testEnv testParse clock getTime getSecret getObject verify)
     = Inr testConfig"
  by (simp add: getEnvironmentConfig_def Let_def mockRuntime_def testEnv_def testParse_def
      testConfig_def parseInt_def isWhiteSpace_def isDigit_def digitsValue_def)


section \<open>The JWKS builder\<close>




text \<open>
  C2. In every run of the builder in which the configuration loads and the three records
  are resolved, the key list is the NEXT key whenever a NEXT record is there (every
  object is truthy), then the AWSCURRENT key only if its \<open>activatedAt\<close> is set, then the
  AWSPREVIOUS key only if its \<open>activatedAt\<close> is set (and it is within the window): a
  record without \<open>activatedAt\<close> contributes nothing at the last two positions.
\<close>

theorem buildJwks_requires_activation:
  assumes cfg: "getEnvironmentConfig rt = Inr config"
    and n: "getJwk rt secretId (nextSecret options) ''NEXT'' s0 = (Inr next, s1)"
    and c: "getJwk rt secretId (currentSecret options) ''AWSCURRENT'' s1 = (Inr current, s2)"
    and p: "getJwk rt secretId (previousSecret options) ''AWSPREVIOUS'' s2 = (Inr previous, s3)"
  shows "\<exists>withinWindow.
     fst (buildJwks rt secretId options s0) =
       Inr (Obj [(''keys'', Arr (
          entryIf (truthy next) next @
          entryIf (truthy (optProp current ''activatedAt'')) current @
          entryIf (truthy (optProp previous ''activatedAt'') \<and> withinWindow) previous))])"
proof -
  obtain t w4 where clock: "Date_now rt (fst s3) = (t, w4)"
    by (cases "Date_now rt (fst s3)")
  show ?thesis
    unfolding buildJwks_run [OF cfg n c p clock] by auto
qed

text \<open>
  A store with a NEXT record, an AWSCURRENT record and an AWSPREVIOUS record, none of
  them activated: only the NEXT key is published.
\<close>

theorem buildJwks_requires_activation_witness:
  "fst (buildJwks (rotationRuntime initialStore 1704067200000) ''jwks-secret'' noOptions (0, [])) =
     Inr (Obj [(''keys'', Arr [publishedKey ''next-kid''])])"
proof -
  let ?rt = "rotationRuntime initialStore 1704067200000"
  let ?next = "GetSecretValueCommand (stageInput ''jwks-secret'' ''NEXT'')"
  let ?current = "GetSecretValueCommand (stageInput ''jwks-secret'' ''AWSCURRENT'')"
  let ?previous = "GetSecretValueCommand (stageInput ''jwks-secret'' ''AWSPREVIOUS'')"
  have cfg: "getEnvironmentConfig ?rt = Inr testConfig"
    by (simp add: rotationRuntime_def testConfig_loaded)
  have n: "getJwk ?rt ''jwks-secret'' (nextSecret noOptions) ''NEXT'' (0, []) =
             (Inr (keyRecord ''next-kid''), (Suc 0, [?next]))"
    by (simp add: eval_defs noOptions_def initialStore_def)
  have c: "getJwk ?rt ''jwks-secret'' (currentSecret noOptions) ''AWSCURRENT'' (Suc 0, [?next]) =
             (Inr (keyRecord ''initial-kid''), (Suc (Suc 0), [?next, ?current]))"
    by (simp add: eval_defs noOptions_def initialStore_def)
  have p: "getJwk ?rt ''jwks-secret'' (previousSecret noOptions) ''AWSPREVIOUS''
             (Suc (Suc 0), [?next, ?current]) =
             (Inr (keyRecord ''retired-kid''), (Suc (Suc (Suc 0)), [?next, ?current, ?previous]))"
    by (simp add: eval_defs noOptions_def initialStore_def)
  show ?thesis
    using buildJwks_requires_activation [OF cfg n c p]
    by (simp add: entryIf_def addJwk_def objSpread_def optProp_def keyRecord_def
        publishedKey_def)
qed

text \<open>
  C7, evaluated on the records that the code writes. \<open>generateJwksKeyPair\<close> stores the
  public key under \<^verbatim>\<open>publicKeyJwk\<close> and \<open>addJwk\<close> spreads \<^verbatim>\<open>publicJwk\<close>, which such a
  record does not have: the entry built from any record that \<open>generateJwksKeyPair\<close>
  returns has \<^verbatim>\<open>kid\<close>, \<^verbatim>\<open>alg\<close> and \<^verbatim>\<open>use\<close> and nothing else, so neither \<^verbatim>\<open>kty\<close>
  nor the public key parameters.
\<close>

theorem addJwk_drops_generated_public_key:
  assumes "generateJwksKeyPair rt spec s = (Inr generated, s')"
  shows "\<exists>kid alg. getProp generated ''kid'' = Str kid \<and> getProp generated ''alg'' = Str alg \<and>
           addJwk generated keys =
             keys @ [Obj [(''kid'', Str kid), (''alg'', Str alg), (''use'', Str ''sig'')]]"
  using generateJwksKeyPair_shape [OF assms]
  by (auto simp: addJwk_def objSpread_def)

text \<open>
  An RS256 key pair whose public JWK is \<^verbatim>\<open>{kty: "RSA", n: "modulus", e: "AQAB"}\<close> is
  published as \<^verbatim>\<open>{kid: "new-kid", alg: "RS256", use: "sig"}\<close>.
\<close>

theorem addJwk_drops_generated_public_key_witness:
  "fst (generateJwksKeyPair (rotationRuntime activeStore 1704067200000)
          (Obj [(''algorithm'', Str ''RS256'')]) (0, [])) =
     Inr (Obj [(''privateKeyPem'', Str ''pem''),
               (''publicKeyJwk'',
                  Obj [(''kty'', Str ''RSA''), (''n'', Str ''modulus''), (''e'', Str ''AQAB'')]),
               (''kid'', Str ''new-kid''), (''alg'', Str ''RS256''),
               (''createdAt'', Str ''2024-01-01T00:00:00.000Z'')]) \<and>
   addJwk (Obj [(''privateKeyPem'', Str ''pem''),
                (''publicKeyJwk'',
                   Obj [(''kty'', Str ''RSA''), (''n'', Str ''modulus''), (''e'', Str ''AQAB'')]),
                (''kid'', Str ''new-kid''), (''alg'', Str ''RS256''),
                (''createdAt'', Str ''2024-01-01T00:00:00.000Z'')]) [] =
     [Obj [(''kid'', Str ''new-kid''), (''alg'', Str ''RS256''), (''use'', Str ''sig'')]]"
proof -
  let ?generated = "Obj [(''privateKeyPem'', Str ''pem''),
               (''publicKeyJwk'',
                  Obj [(''kty'', Str ''RSA''), (''n'', Str ''modulus''), (''e'', Str ''AQAB'')]),
               (''kid'', Str ''new-kid''), (''alg'', Str ''RS256''),
               (''createdAt'', Str ''2024-01-01T00:00:00.000Z'')]"
  have gen: "generateJwksKeyPair (rotationRuntime activeStore 1704067200000)
          (Obj [(''algorithm'', Str ''RS256'')]) (0, []) = (Inr ?generated, (0, []))"
    by (simp add: eval_defs)
  show ?thesis
    using addJwk_drops_generated_public_key [OF gen, of "[]"] by (simp add: gen)
qed


section \<open>createSecret\<close>



text \<open>
  C4. Take a run of \<open>createSecret\<close> in which the configuration loads, the read of
  AWSCURRENT returns (a record or none) and the store has a NEXT record whose age, the
  seconds from its \<open>createdAt\<close> to \<^verbatim>\<open>Date.now()\<close>, is strictly below
  \<open>minActivationGracePeriodSeconds\<close>. Then the step fails with \<^verbatim>\<open>Next key is too new\<close>
  and the two ages in the message; the only commands it has sent are the two reads, so
  nothing was written to the secret store or to the object store.
\<close>

theorem createSecret_rejects_young_next:
  assumes cfg: "getEnvironmentConfig rt = Inr config"
    and cur: "getSecretValue rt (stageInput secretId ''AWSCURRENT'') s0 = (Inr current, s1)"
    and nxt: "getSecretValue rt (stageInput secretId ''NEXT'') s1 = (Inr (Some nextVersion), s2)"
    and present: "\<not> nullish (secretValue nextVersion)"
    and created: "Date_getTime rt (getProp (secretValue nextVersion) ''createdAt'') = Some createdAt"
    and clock: "Date_now rt (fst s2) = (t, w3)"
    and young: "of_int (t - createdAt) / 1000 <
                  (of_int (minActivationGracePeriodSeconds config) :: rat)"
  shows "createSecret rt secretId token s0 =
           (Inl (Error (''Next key is too new ('' @
                   Number_toString rt (of_int (t - createdAt) / 1000) @ ''s < '' @
                   Number_toString rt (of_int (minActivationGracePeriodSeconds config)) @
                   ''s). Aborting rotation.'')),
            (w3, snd s0 @ [GetSecretValueCommand (stageInput secretId ''AWSCURRENT''),
                           GetSecretValueCommand (stageInput secretId ''NEXT'')])) \<and>
         writes (sent (createSecret rt secretId token s0)) = writes (snd s0)"
proof -
  have log: "snd s2 = snd s0 @ [GetSecretValueCommand (stageInput secretId ''AWSCURRENT''),
                                GetSecretValueCommand (stageInput secretId ''NEXT'')]"
    using getSecretValue_sent [OF cur] getSecretValue_sent [OF nxt] by simp
  have run: "createSecret rt secretId token s0 =
           (Inl (Error (''Next key is too new ('' @
                   Number_toString rt (of_int (t - createdAt) / 1000) @ ''s < '' @
                   Number_toString rt (of_int (minActivationGracePeriodSeconds config)) @
                   ''s). Aborting rotation.'')),
            (w3, snd s2))"
    using young
    by (simp add: createSecret_def bindIO_def liftE_def cfg cur nxt present Let_def
        now_run [OF clock] secondsSince_def created throwIO_def)
  show ?thesis
    unfolding run by (simp add: log sent_def writes_def)
qed

text \<open>
  A NEXT key created one hour ago, against a grace period of 604800 seconds, is refused
  and nothing is written.
\<close>

theorem createSecret_rejects_young_next_witness:
  "fst (createSecret (rotationRuntime youngNextStore 1704070800000) ''jwks-secret'' ''token-1''
          (0, [])) =
     Inl (Error ''Next key is too new (3600s < 604800s). Aborting rotation.'') \<and>
   sent (createSecret (rotationRuntime youngNextStore 1704070800000) ''jwks-secret'' ''token-1''
           (0, [])) =
     [GetSecretValueCommand (stageInput ''jwks-secret'' ''AWSCURRENT''),
      GetSecretValueCommand (stageInput ''jwks-secret'' ''NEXT'')]"
proof -
  let ?rt = "rotationRuntime youngNextStore 1704070800000"
  let ?next = "\<lparr> VersionId = ''next-version-id'', VersionStages = Some [''NEXT''],
                 secretValue = keyRecord ''next-kid'' \<rparr>"
  let ?read1 = "GetSecretValueCommand (stageInput ''jwks-secret'' ''AWSCURRENT'')"
  let ?read2 = "GetSecretValueCommand (stageInput ''jwks-secret'' ''NEXT'')"
  have cfg: "getEnvironmentConfig ?rt = Inr testConfig"
    by (simp add: rotationRuntime_def testConfig_loaded)
  have cur: "getSecretValue ?rt (stageInput ''jwks-secret'' ''AWSCURRENT'') (0, []) =
               (Inr None, (Suc 0, [?read1]))"
    by (simp add: eval_defs youngNextStore_def)
  have nxt: "getSecretValue ?rt (stageInput ''jwks-secret'' ''NEXT'') (Suc 0, [?read1]) =
               (Inr (Some ?next), (Suc (Suc 0), [?read1, ?read2]))"
    by (simp add: eval_defs youngNextStore_def)
  have present: "\<not> nullish (secretValue ?next)"
    by (simp add: keyRecord_def)
  have created: "Date_getTime ?rt (getProp (secretValue ?next) ''createdAt'') = Some 1704067200000"
    by (simp add: eval_defs)
  have clock: "Date_now ?rt (fst (Suc (Suc 0), [?read1, ?read2])) = (1704070800000, Suc (Suc 0))"
    by (simp add: eval_defs)
  have young: "of_int (1704070800000 - 1704067200000) / 1000 <
                 (of_int (minActivationGracePeriodSeconds testConfig) :: rat)"
    by (simp add: testConfig_def)
  show ?thesis
    using createSecret_rejects_young_next [OF cfg cur nxt present created clock young,
        of "''token-1''"]
    by (simp add: sent_def eval_defs testConfig_def)
qed


section \<open>finishSecret\<close>

text \<open>
  C5. Let the read of AWSCURRENT and, after it, the read of AWSPENDING at the version of
  the token return. With no AWSCURRENT record the step fails with
  \<^verbatim>\<open>Current version not found\<close>; with an AWSCURRENT record and no AWSPENDING record it
  fails with \<^verbatim>\<open>Pending version not found\<close>; in both cases no write is sent. With both
  records, when the stage move, the rebuild and the publication succeed, the step returns
  and the writes it has added are exactly one move of AWSCURRENT from the version id of
  the current record to the version id of the pending record, followed by one put of the
  JWKS document that the builder returns for the overrides current = the promoted record
  and previous = the displaced record.
\<close>

theorem finishSecret_moves_current_once:
  assumes cur: "getSecretValue rt (stageInput secretId ''AWSCURRENT'') s0 = (Inr current, s1)"
    and pen: "getSecretValue rt (pendingInput secretId token) s1 = (Inr pending, s2)"
  shows "(current = None \<longrightarrow>
            fst (finishSecret rt secretId token s0) = Inl (Error ''Current version not found'') \<and>
            writes (sent (finishSecret rt secretId token s0)) = writes (snd s0)) \<and>
         (current \<noteq> None \<and> pending = None \<longrightarrow>
            fst (finishSecret rt secretId token s0) = Inl (Error ''Pending version not found'') \<and>
            writes (sent (finishSecret rt secretId token s0)) = writes (snd s0)) \<and>
         (\<forall>currentVersion pendingVersion w3 config jwks s4 w5.
            current = Some currentVersion \<and> pending = Some pendingVersion \<and>
            secretsClient_UpdateSecretVersionStage rt
              (moveInput secretId (VersionId currentVersion) (VersionId pendingVersion))
              (fst s2) = (Inr (), w3) \<and>
            getEnvironmentConfig rt = Inr config \<and>
            buildJwks rt secretId
              \<lparr> nextSecret = Undefined, previousSecret = secretValue currentVersion,
                currentSecret = secretValue pendingVersion \<rparr>
              (w3, snd s2 @ [UpdateSecretVersionStageCommand
                 (moveInput secretId (VersionId currentVersion) (VersionId pendingVersion))])
              = (Inr jwks, s4) \<and>
            s3Client_PutObject rt (jwksPutInput rt config jwks) (fst s4) = (Inr (), w5)
            \<longrightarrow>
            fst (finishSecret rt secretId token s0) = Inr () \<and>
            writes (sent (finishSecret rt secretId token s0)) =
              writes (snd s0) @
              [UpdateSecretVersionStageCommand
                 (moveInput secretId (VersionId currentVersion) (VersionId pendingVersion)),
               PutObjectCommand (jwksPutInput rt config jwks)])"
proof (intro conjI impI allI)
  assume "current = None"
  then have run: "finishSecret rt secretId token s0 =
      (Inl (Error ''Current version not found''), s1)"
    by (simp add: finishSecret_def bindIO_def cur throwIO_def)
  show "fst (finishSecret rt secretId token s0) = Inl (Error ''Current version not found'')"
    by (simp add: run)
  show "writes (sent (finishSecret rt secretId token s0)) = writes (snd s0)"
    using noWritesD [OF noWrites_getSecretValue cur] by (simp add: run sent_def)
next
  assume "current \<noteq> None \<and> pending = None"
  then have run: "finishSecret rt secretId token s0 =
      (Inl (Error ''Pending version not found''), s2)"
    by (auto simp: finishSecret_def bindIO_def cur pen throwIO_def)
  show "fst (finishSecret rt secretId token s0) = Inl (Error ''Pending version not found'')"
    by (simp add: run)
  show "writes (sent (finishSecret rt secretId token s0)) = writes (snd s0)"
    using noWritesD [OF noWrites_getSecretValue cur] noWritesD [OF noWrites_getSecretValue pen]
    by (simp add: run sent_def)
next
  fix currentVersion pendingVersion :: SecretVersion
    and w3 w5 :: 'a and config :: EnvironmentConfig and jwks :: jsval and s4 :: "'a state"
  let ?move = "UpdateSecretVersionStageCommand
                 (moveInput secretId (VersionId currentVersion) (VersionId pendingVersion))"
  assume h: "current = Some currentVersion \<and> pending = Some pendingVersion \<and>
            secretsClient_UpdateSecretVersionStage rt
              (moveInput secretId (VersionId currentVersion) (VersionId pendingVersion))
              (fst s2) = (Inr (), w3) \<and>
            getEnvironmentConfig rt = Inr config \<and>
            buildJwks rt secretId
              \<lparr> nextSecret = Undefined, previousSecret = secretValue currentVersion,
                currentSecret = secretValue pendingVersion \<rparr>
              (w3, snd s2 @ [?move]) = (Inr jwks, s4) \<and>
            s3Client_PutObject rt (jwksPutInput rt config jwks) (fst s4) = (Inr (), w5)"
  then have build: "buildJwks rt secretId
              \<lparr> nextSecret = Undefined, previousSecret = secretValue currentVersion,
                currentSecret = secretValue pendingVersion \<rparr>
              (w3, snd s2 @ [?move]) = (Inr jwks, s4)"
    and cfg: "getEnvironmentConfig rt = Inr config"
    and publish: "s3Client_PutObject rt (jwksPutInput rt config jwks) (fst s4) = (Inr (), w5)"
    by auto
  have run: "finishSecret rt secretId token s0 =
      (Inr (), (w5, snd s4 @ [PutObjectCommand (jwksPutInput rt config jwks)]))"
    using h
    by (simp add: finishSecret_def bindIO_def cur pen Let_def send_def moveInput_def
        regenerateAndPublishJwks_run [OF cfg build publish, unfolded moveInput_def]
        returnIO_def)
  show "fst (finishSecret rt secretId token s0) = Inr ()"
    by (simp add: run)
  show "writes (sent (finishSecret rt secretId token s0)) =
          writes (snd s0) @ [?move, PutObjectCommand (jwksPutInput rt config jwks)]"
    using noWritesD [OF noWrites_getSecretValue cur] noWritesD [OF noWrites_getSecretValue pen]
      noWritesD [OF noWrites_buildJwks build]
    by (simp add: run sent_def writes_def)
qed

text \<open>
  An empty store, a store with a current record only, and a store with the current
  record at \<^verbatim>\<open>current-version-id\<close> and the pending record at \<^verbatim>\<open>token-1\<close>: the last
  one yields the move from \<^verbatim>\<open>current-version-id\<close> to \<^verbatim>\<open>token-1\<close> and one publication
  of the promoted key followed by the displaced key.
\<close>

theorem finishSecret_moves_current_once_witness:
  "fst (finishSecret (rotationRuntime Map.empty 1704672001000) ''jwks-secret'' ''token-1'' (0, []))
     = Inl (Error ''Current version not found'') \<and>
   fst (finishSecret (rotationRuntime activeStore 1704672001000) ''jwks-secret'' ''token-1'' (0, []))
     = Inl (Error ''Pending version not found'') \<and>
   writes (sent (finishSecret (rotationRuntime activeStore 1704672001000) ''jwks-secret''
                   ''token-1'' (0, []))) = [] \<and>
   fst (finishSecret (rotationRuntime pendingStore 1704672001000) ''jwks-secret'' ''token-1'' (0, []))
     = Inr () \<and>
   writes (sent (finishSecret (rotationRuntime pendingStore 1704672001000) ''jwks-secret''
                   ''token-1'' (0, []))) =
     [UpdateSecretVersionStageCommand
        \<lparr> usvSecretId = ''jwks-secret'', usvVersionStage = ''AWSCURRENT'',
          usvMoveToVersionId = ''token-1'', usvRemoveFromVersionId = ''current-version-id'' \<rparr>,
      PutObjectCommand
        \<lparr> poBucket = ''test-bucket'', poKey = ''.well-known/jwks.json'',
          poBody = ''pending-kid;current-kid;'', poContentType = ''application/json'',
          poCacheControl = ''public, max-age=3600'' \<rparr>]"
proof -
  let ?read1 = "GetSecretValueCommand (stageInput ''jwks-secret'' ''AWSCURRENT'')"
  let ?read2 = "GetSecretValueCommand (pendingInput ''jwks-secret'' ''token-1'')"
  let ?read3 = "GetSecretValueCommand (stageInput ''jwks-secret'' ''NEXT'')"
  let ?current = "\<lparr> VersionId = ''current-version-id'', VersionStages = Some [''AWSCURRENT''],
                    secretValue = activatedRecord ''current-kid'' ''2024-01-01T00:00:00.000Z'' \<rparr>"
  let ?pending = "\<lparr> VersionId = ''token-1'', VersionStages = Some [''AWSPENDING''],
                    secretValue = writtenRecord ''pending-kid'' \<rparr>"
  let ?move = "UpdateSecretVersionStageCommand
                 (moveInput ''jwks-secret'' (VersionId ?current) (VersionId ?pending))"
  let ?jwks = "Obj [(''keys'', Arr [Obj [(''kid'', Str ''pending-kid''), (''alg'', Str ''RS256''),
                                        (''use'', Str ''sig'')],
                                   publishedKey ''current-kid''])]"
  have cur0: "getSecretValue (rotationRuntime Map.empty 1704672001000)
                (stageInput ''jwks-secret'' ''AWSCURRENT'') (0, []) = (Inr None, (Suc 0, [?read1]))"
    by (simp add: eval_defs)
  have pen0: "getSecretValue (rotationRuntime Map.empty 1704672001000)
                (pendingInput ''jwks-secret'' ''token-1'') (Suc 0, [?read1]) =
              (Inr None, (Suc (Suc 0), [?read1, ?read2]))"
    by (simp add: eval_defs)
  have cur1: "getSecretValue (rotationRuntime activeStore 1704672001000)
                (stageInput ''jwks-secret'' ''AWSCURRENT'') (0, []) =
              (Inr (Some ?current), (Suc 0, [?read1]))"
    by (simp add: eval_defs activeStore_def)
  have pen1: "getSecretValue (rotationRuntime activeStore 1704672001000)
                (pendingInput ''jwks-secret'' ''token-1'') (Suc 0, [?read1]) =
              (Inr None, (Suc (Suc 0), [?read1, ?read2]))"
    by (simp add: eval_defs activeStore_def)
  let ?rt = "rotationRuntime pendingStore 1704672001000"
  have cur2: "getSecretValue ?rt (stageInput ''jwks-secret'' ''AWSCURRENT'') (0, []) =
              (Inr (Some ?current), (Suc 0, [?read1]))"
    by (simp add: eval_defs pendingStore_def)
  have pen2: "getSecretValue ?rt (pendingInput ''jwks-secret'' ''token-1'') (Suc 0, [?read1]) =
              (Inr (Some ?pending), (Suc (Suc 0), [?read1, ?read2]))"
    by (simp add: eval_defs pendingStore_def)
  have move: "secretsClient_UpdateSecretVersionStage ?rt
                (moveInput ''jwks-secret'' (VersionId ?current) (VersionId ?pending))
                (fst (Suc (Suc 0), [?read1, ?read2])) = (Inr (), Suc (Suc 0))"
    by (simp add: eval_defs)
  have cfg: "getEnvironmentConfig ?rt = Inr testConfig"
    by (simp add: rotationRuntime_def testConfig_loaded)
  have build: "buildJwks ?rt ''jwks-secret''
                 \<lparr> nextSecret = Undefined, previousSecret = secretValue ?current,
                   currentSecret = secretValue ?pending \<rparr>
                 (Suc (Suc 0), snd (Suc (Suc 0), [?read1, ?read2]) @ [?move]) =
               (Inr ?jwks, (Suc (Suc (Suc 0)), [?read1, ?read2, ?move, ?read3]))"
    by (simp add: eval_defs pendingStore_def)
  have publish: "s3Client_PutObject ?rt (jwksPutInput ?rt testConfig ?jwks)
                   (fst (Suc (Suc (Suc 0)), [?read1, ?read2, ?move, ?read3])) =
                 (Inr (), Suc (Suc (Suc 0)))"
    by (simp add: eval_defs)
  show ?thesis
    using finishSecret_moves_current_once [OF cur0 pen0]
      finishSecret_moves_current_once [OF cur1 pen1]
      finishSecret_moves_current_once [OF cur2 pen2, THEN conjunct2, THEN conjunct2,
        rule_format, of ?current ?pending "Suc (Suc 0)" testConfig ?jwks
          "(Suc (Suc (Suc 0)), [?read1, ?read2, ?move, ?read3])" "Suc (Suc (Suc 0))"]
      move cfg build publish
    by (simp add: writes_def eval_defs testConfig_def)
qed


section \<open>testSecret\<close>

lemma noWrites_signTestJwt: "noWrites (signTestJwt rt pendingSecretValue)"
  unfolding signTestJwt_def Let_def
  by (intro noWrites_bindIO noWrites_now noWrites_world)

lemma noWrites_testSecret: "noWrites (testSecret rt secretId token)"
  unfolding testSecret_def
  by (intro noWrites_bindIO noWrites_getSecretValue)
     (auto split: option.splits sum.splits
        intro!: noWrites_returnIO noWrites_throwIO noWrites_bindIO noWrites_world
          noWrites_liftE noWrites_getJwksFromS3 noWrites_tryCatch noWrites_signTestJwt)

text \<open>
  The property read is \<^verbatim>\<open>privateKey\<close>. When the import of what is found there throws,
  the step fails with the thrown value, unwrapped, and the only command it has sent is
  the read of AWSPENDING: the JWKS is not loaded.
\<close>

lemma testSecret_import_rejected:
  assumes pen: "getSecretValue rt (pendingInput secretId token) s0 =
                  (Inr (Some pendingVersion), s1)"
    and present: "\<not> nullish (secretValue pendingVersion)"
    and clock1: "Date_now rt (fst s1) = (t1, w2)"
    and clock2: "Date_now rt w2 = (t2, w3)"
    and rejected: "jose_importPKCS8 rt (getProp (secretValue pendingVersion) ''privateKey'')
                     (getProp (secretValue pendingVersion) ''alg'') w3 = (Inl e, w4)"
  shows "testSecret rt secretId token s0 =
           (Inl e, (w4, snd s0 @ [GetSecretValueCommand (pendingInput secretId token)]))"
proof -
  have log: "snd s1 = snd s0 @ [GetSecretValueCommand (pendingInput secretId token)]"
    using getSecretValue_sent [OF pen] .
  have now2: "now rt (w2, l) = (Inr t2, (w3, l))" for l
    using now_run [of rt "(w2, l)" t2 w3] clock2 by simp
  show ?thesis
    by (simp add: testSecret_def signTestJwt_def bindIO_def pen present Let_def
        now_run [OF clock1] now2 world_def rejected log)
qed

text \<open>
  C6, evaluated on the records that the code writes. \<open>testSecret\<close> reads the private
  key of the pending record from \<^verbatim>\<open>privateKey\<close>, and \<open>generateJwksKeyPair\<close> stores it
  under \<^verbatim>\<open>privateKeyPem\<close>. Take any record that \<open>generateJwksKeyPair\<close> returns, made
  into the AWSPENDING record as \<open>createSecret\<close> does, by adding \<^verbatim>\<open>activatedAt\<close>, and
  let the read of AWSPENDING at the version of the token return it. Neither record has a
  \<^verbatim>\<open>privateKey\<close>, so \<^verbatim>\<open>importPKCS8\<close> is given \<^verbatim>\<open>undefined\<close>; when it throws \<open>e\<close> on
  that, the step fails with \<open>e\<close> itself, not wrapped, and the only command it has sent
  is that read: the JWKS is never loaded. So whatever the published JWKS holds, empty,
  absent or without the \<^verbatim>\<open>kid\<close>, the step ends with the error of the import and with
  none of \<^verbatim>\<open>No keys found in JWKS document\<close> and \<^verbatim>\<open>JWT verification failed\<close>.
\<close>

theorem testSecret_rejects_generated_record:
  assumes gen: "generateJwksKeyPair rt0 spec g = (Inr generated, g')"
    and written: "secretValue pendingVersion =
                    Obj (objSet (objSpread generated) ''activatedAt'' (Str activatedAt))"
    and pen: "getSecretValue rt (pendingInput secretId token) s0 =
                (Inr (Some pendingVersion), s1)"
    and clock1: "Date_now rt (fst s1) = (t1, w2)"
    and clock2: "Date_now rt w2 = (t2, w3)"
    and rejected: "jose_importPKCS8 rt Undefined (getProp generated ''alg'') w3 = (Inl e, w4)"
  shows "getProp generated ''privateKey'' = Undefined \<and>
         getProp (secretValue pendingVersion) ''privateKey'' = Undefined \<and>
         testSecret rt secretId token s0 =
           (Inl e, (w4, snd s0 @ [GetSecretValueCommand (pendingInput secretId token)]))"
proof -
  obtain pem jwk kid alg created where shape:
    "generated = Obj [(''privateKeyPem'', Str pem), (''publicKeyJwk'', jwk),
                      (''kid'', Str kid), (''alg'', Str alg), (''createdAt'', Str created)]"
    using generateJwksKeyPair_shape [OF gen] by blast
  have shape2: "secretValue pendingVersion =
      Obj [(''privateKeyPem'', Str pem), (''publicKeyJwk'', jwk), (''kid'', Str kid),
           (''alg'', Str alg), (''createdAt'', Str created),
           (''activatedAt'', Str activatedAt)]"
    by (simp add: written shape objSpread_def)
  have present: "\<not> nullish (secretValue pendingVersion)"
    by (simp add: shape2)
  have refused: "jose_importPKCS8 rt (getProp (secretValue pendingVersion) ''privateKey'')
                  (getProp (secretValue pendingVersion) ''alg'') w3 = (Inl e, w4)"
    using rejected by (simp add: shape2 shape)
  show ?thesis
    using testSecret_import_rejected [OF pen present clock1 clock2 refused]
    by (simp add: shape2 shape)
qed

text \<open>
  The record generated for \<^verbatim>\<open>{algorithm: "RS256"}\<close> with the \<^verbatim>\<open>kid\<close>
  \<^verbatim>\<open>pending-kid\<close>, activated and held at AWSPENDING under the token, with no JWKS object
  in the bucket and an import that rejects what is not a string: the step fails with the
  \<^verbatim>\<open>TypeError\<close> of the import after its one read, where an absent JWKS should give
  \<^verbatim>\<open>No keys found in JWKS document\<close>.
\<close>

theorem testSecret_rejects_generated_record_witness:
  "fst (generateJwksKeyPair
          ((rotationRuntime Map.empty 1704067200000)\<lparr> nanoid := \<lambda>w. (''pending-kid'', w) \<rparr>)
          (Obj [(''algorithm'', Str ''RS256'')]) (0, [])) =
     Inr (Obj [(''privateKeyPem'', Str ''pem''),
               (''publicKeyJwk'',
                  Obj [(''kty'', Str ''RSA''), (''n'', Str ''modulus''), (''e'', Str ''AQAB'')]),
               (''kid'', Str ''pending-kid''), (''alg'', Str ''RS256''),
               (''createdAt'', Str ''2024-01-01T00:00:00.000Z'')]) \<and>
   s3Client_GetObject (rotationRuntime pendingStore 1704672001000)
     \<lparr> goBucket = ''test-bucket'', goKey = ''.well-known/jwks.json'' \<rparr> (Suc 0) =
     (Inl noSuchKey, Suc 0) \<and>
   testSecret (rotationRuntime pendingStore 1704672001000) ''jwks-secret'' ''token-1'' (0, []) =
     (Inl (TypeError ''pkcs8 must be PKCS#8 formatted string''),
      (Suc 0, [GetSecretValueCommand (pendingInput ''jwks-secret'' ''token-1'')]))"
proof -
  let ?generator = "(rotationRuntime Map.empty 1704067200000)\<lparr> nanoid := \<lambda>w. (''pending-kid'', w) \<rparr>"
  let ?rt = "rotationRuntime pendingStore 1704672001000"
  let ?generated = "Obj [(''privateKeyPem'', Str ''pem''),
               (''publicKeyJwk'',
                  Obj [(''kty'', Str ''RSA''), (''n'', Str ''modulus''), (''e'', Str ''AQAB'')]),
               (''kid'', Str ''pending-kid''), (''alg'', Str ''RS256''),
               (''createdAt'', Str ''2024-01-01T00:00:00.000Z'')]"
  let ?pending = "\<lparr> VersionId = ''token-1'', VersionStages = Some [''AWSPENDING''],
                    secretValue = writtenRecord ''pending-kid'' \<rparr>"
  let ?read = "GetSecretValueCommand (pendingInput ''jwks-secret'' ''token-1'')"
  have gen: "generateJwksKeyPair ?generator (Obj [(''algorithm'', Str ''RS256'')]) (0, []) =
               (Inr ?generated, (0, []))"
    by (simp add: eval_defs)
  have written: "secretValue ?pending =
      Obj (objSet (objSpread ?generated) ''activatedAt'' (Str ''2024-01-08T00:00:00.000Z''))"
    by (simp add: writtenRecord_def objSpread_def)
  have pen: "getSecretValue ?rt (pendingInput ''jwks-secret'' ''token-1'') (0, []) =
               (Inr (Some ?pending), (Suc 0, [?read]))"
    by (simp add: eval_defs pendingStore_def)
  have clock1: "Date_now ?rt (fst (Suc 0, [?read])) = (1704672001000, Suc 0)"
    by (simp add: eval_defs)
  have clock2: "Date_now ?rt (Suc 0) = (1704672001000, Suc 0)"
    by (simp add: eval_defs)
  have rejected: "jose_importPKCS8 ?rt Undefined (getProp ?generated ''alg'') (Suc 0) =
                    (Inl (TypeError ''pkcs8 must be PKCS#8 formatted string''), Suc 0)"
    by (simp add: eval_defs)
  have absent: "s3Client_GetObject ?rt
     \<lparr> goBucket = ''test-bucket'', goKey = ''.well-known/jwks.json'' \<rparr> (Suc 0) =
     (Inl noSuchKey, Suc 0)"
    by (simp add: rotationRuntime_def mockRuntime_def)
  show ?thesis
    using testSecret_rejects_generated_record [OF gen written pen clock1 clock2 rejected]
      absent
    by (simp add: gen)
qed

text \<open>
  The step on a pending record from which a test token can be signed, which takes a
  record that holds its key under \<^verbatim>\<open>privateKey\<close>. Let the read of AWSPENDING at the
  version of the token return. With no such version the step fails with
  \<^verbatim>\<open>AWSPENDING version not found\<close>. With a pending record, once the test token is
  signed and the configuration and the JWKS are loaded: a JWKS
  whose key list is empty makes the step fail with \<^verbatim>\<open>No keys found in JWKS document\<close>,
  and a JWKS with keys against which \<^verbatim>\<open>jwtVerify\<close> throws \<open>e\<close> (for an unknown
  \<^verbatim>\<open>kid\<close>, the \<^verbatim>\<open>no applicable key found\<close> error of the library) makes it fail with
  \<^verbatim>\<open>JWT verification failed:\<close> followed by \<open>e\<close>. An absent JWKS object loads as the
  empty key set. Whatever happens, on success as on failure, the step sends no write to
  the secret store or to the object store.
\<close>

lemma testSecret_signing_record:
  assumes pen: "getSecretValue rt (pendingInput secretId token) s0 = (Inr pending, s1)"
  shows "(pending = None \<longrightarrow>
            fst (testSecret rt secretId token s0) = Inl (Error ''AWSPENDING version not found'')) \<and>
         (\<forall>pendingVersion jwt s2 config jwksDocument s3.
            pending = Some pendingVersion \<and> \<not> nullish (secretValue pendingVersion) \<and>
            signTestJwt rt (secretValue pendingVersion) s1 = (Inr jwt, s2) \<and>
            getEnvironmentConfig rt = Inr config \<and>
            getJwksFromS3 rt (bucketName config) (bucketPath config) s2 = (Inr jwksDocument, s3)
            \<longrightarrow>
            (getProp jwksDocument ''keys'' = Arr [] \<longrightarrow>
               fst (testSecret rt secretId token s0) =
                 Inl (Error ''No keys found in JWKS document'')) \<and>
            (\<forall>key keys jwks e w4.
               getProp jwksDocument ''keys'' = Arr (key # keys) \<and>
               jose_createLocalJWKSet rt jwksDocument = Inr jwks \<and>
               jose_jwtVerify rt jwt jwks (fst s3) = (Inl e, w4)
               \<longrightarrow>
               fst (testSecret rt secretId token s0) =
                 Inl (Error (''JWT verification failed: '' @ thrownToString e)))) \<and>
         (\<forall>bucket key s e w.
            s3Client_GetObject rt \<lparr> goBucket = bucket, goKey = key \<rparr> (fst s) = (Inl e, w) \<and>
            isNamedError ''NoSuchKey'' e
            \<longrightarrow> fst (getJwksFromS3 rt bucket key s) = Inr (Obj [(''keys'', Arr [])])) \<and>
         noWrites (testSecret rt secretId token)"
proof (intro conjI)
  show "pending = None \<longrightarrow>
          fst (testSecret rt secretId token s0) = Inl (Error ''AWSPENDING version not found'')"
    by (simp add: testSecret_def bindIO_def pen throwIO_def)
next
  show "\<forall>pendingVersion jwt s2 config jwksDocument s3.
            pending = Some pendingVersion \<and> \<not> nullish (secretValue pendingVersion) \<and>
            signTestJwt rt (secretValue pendingVersion) s1 = (Inr jwt, s2) \<and>
            getEnvironmentConfig rt = Inr config \<and>
            getJwksFromS3 rt (bucketName config) (bucketPath config) s2 = (Inr jwksDocument, s3)
            \<longrightarrow>
            (getProp jwksDocument ''keys'' = Arr [] \<longrightarrow>
               fst (testSecret rt secretId token s0) =
                 Inl (Error ''No keys found in JWKS document'')) \<and>
            (\<forall>key keys jwks e w4.
               getProp jwksDocument ''keys'' = Arr (key # keys) \<and>
               jose_createLocalJWKSet rt jwksDocument = Inr jwks \<and>
               jose_jwtVerify rt jwt jwks (fst s3) = (Inl e, w4)
               \<longrightarrow>
               fst (testSecret rt secretId token s0) =
                 Inl (Error (''JWT verification failed: '' @ thrownToString e)))"
  proof (intro allI impI, elim conjE)
    fix pendingVersion :: SecretVersion and jwt :: string and s2 s3 :: "'a state"
      and config :: EnvironmentConfig and jwksDocument :: jsval
    assume some: "pending = Some pendingVersion"
      and present: "\<not> nullish (secretValue pendingVersion)"
      and signed: "signTestJwt rt (secretValue pendingVersion) s1 = (Inr jwt, s2)"
      and cfg: "getEnvironmentConfig rt = Inr config"
      and loaded: "getJwksFromS3 rt (bucketName config) (bucketPath config) s2 =
                     (Inr jwksDocument, s3)"
    have run: "testSecret rt secretId token s0 =
        (if nullish jwksDocument then
           throwIO (TypeError ''Cannot read properties of null (reading keys)'')
         else if \<not> truthy (getProp jwksDocument ''keys'') \<or>
                 lengthOf (getProp jwksDocument ''keys'') = Num 0 then
           throwIO (Error ''No keys found in JWKS document'')
         else
           bindIO (liftE (jose_createLocalJWKSet rt jwksDocument)) (\<lambda>jwks.
           tryCatch
             (bindIO (world (jose_jwtVerify rt jwt jwks)) (\<lambda>payload.
              if nullish payload then
                throwIO (TypeError ''Cannot read properties of undefined (reading test)'')
              else if getProp payload ''test'' \<noteq> Bool True then
                throwIO (Error ''Test payload verification failed'')
              else returnIO ()))
             (\<lambda>error.
                throwIO (Error (''JWT verification failed: '' @ thrownToString error))))) s3"
      by (simp add: testSecret_def bindIO_def pen some present signed liftE_def cfg loaded)
    show "(getProp jwksDocument ''keys'' = Arr [] \<longrightarrow>
               fst (testSecret rt secretId token s0) =
                 Inl (Error ''No keys found in JWKS document'')) \<and>
            (\<forall>key keys jwks e w4.
               getProp jwksDocument ''keys'' = Arr (key # keys) \<and>
               jose_createLocalJWKSet rt jwksDocument = Inr jwks \<and>
               jose_jwtVerify rt jwt jwks (fst s3) = (Inl e, w4)
               \<longrightarrow>
               fst (testSecret rt secretId token s0) =
                 Inl (Error (''JWT verification failed: '' @ thrownToString e)))"
    proof (intro conjI impI allI)
      assume empty: "getProp jwksDocument ''keys'' = Arr []"
      then have "\<not> nullish jwksDocument"
        by (cases jwksDocument) auto
      then show "fst (testSecret rt secretId token s0) =
                   Inl (Error ''No keys found in JWKS document'')"
        unfolding run by (simp add: empty throwIO_def)
    next
      fix key :: jsval and keys :: "jsval list" and jwks :: jsval and e :: thrown and w4 :: 'a
      assume h: "getProp jwksDocument ''keys'' = Arr (key # keys) \<and>
               jose_createLocalJWKSet rt jwksDocument = Inr jwks \<and>
               jose_jwtVerify rt jwt jwks (fst s3) = (Inl e, w4)"
      then have "\<not> nullish jwksDocument"
        by (cases jwksDocument) auto
      with h show "fst (testSecret rt secretId token s0) =
                     Inl (Error (''JWT verification failed: '' @ thrownToString e))"
        unfolding run
        by (simp add: bindIO_def liftE_def tryCatch_def world_def throwIO_def)
    qed
  qed
next
  show "\<forall>bucket key s e w.
            s3Client_GetObject rt \<lparr> goBucket = bucket, goKey = key \<rparr> (fst s) = (Inl e, w) \<and>
            isNamedError ''NoSuchKey'' e
            \<longrightarrow> fst (getJwksFromS3 rt bucket key s) = Inr (Obj [(''keys'', Arr [])])"
    by (simp add: getJwksFromS3_def Let_def tryCatch_def bindIO_def send_def returnIO_def)
next
  show "noWrites (testSecret rt secretId token)"
    by (rule noWrites_testSecret)
qed

text \<open>
  With no pending version the step fails at once. With a pending record that can sign:
  an absent JWKS object gives \<^verbatim>\<open>No keys found in JWKS document\<close>; a JWKS that holds
  only another \<^verbatim>\<open>kid\<close>, for which the verification throws the error of the library,
  gives the wrapped error; and a verification that succeeds lets the step return. No run
  writes.
\<close>

lemma testSecret_signing_record_example:
  "fst (testSecret (rotationRuntime Map.empty 1704672001000) ''jwks-secret'' ''token-1'' (0, [])) =
     Inl (Error ''AWSPENDING version not found'') \<and>
   fst (testSecret (verifyRuntime (Inl noSuchKey) (Inr Null)) ''jwks-secret'' ''token-1'' (0, [])) =
     Inl (Error ''No keys found in JWKS document'') \<and>
   fst (testSecret (verifyRuntime (Inr (Some ''other-jwks'')) (Inl noMatchingKey))
          ''jwks-secret'' ''token-1'' (0, [])) =
     Inl (Error (''JWT verification failed: JWKSNoMatchingKey: '' @
                 ''no applicable key found in the JSON Web Key Set'')) \<and>
   testSecret (verifyRuntime (Inr (Some ''pending-jwks'')) (Inr (testPayload 0 0)))
     ''jwks-secret'' ''token-1'' (0, []) =
     (Inr (), (Suc 0, [GetSecretValueCommand (pendingInput ''jwks-secret'' ''token-1''),
                       GetObjectCommand \<lparr> goBucket = ''test-bucket'',
                                          goKey = ''.well-known/jwks.json'' \<rparr>])) \<and>
   writes (sent (testSecret (verifyRuntime (Inr (Some ''pending-jwks'')) (Inr (testPayload 0 0)))
                   ''jwks-secret'' ''token-1'' (0, []))) = []"
proof -
  let ?read = "GetSecretValueCommand (pendingInput ''jwks-secret'' ''token-1'')"
  let ?load = "GetObjectCommand \<lparr> goBucket = ''test-bucket'', goKey = ''.well-known/jwks.json'' \<rparr>"
  let ?pending = "\<lparr> VersionId = ''token-1'', VersionStages = Some [''AWSPENDING''],
                    secretValue = activatedRecord ''pending-kid'' ''2024-01-08T00:00:00.000Z'' \<rparr>"
  have pen0: "getSecretValue (rotationRuntime Map.empty 1704672001000)
                (pendingInput ''jwks-secret'' ''token-1'') (0, []) = (Inr None, (Suc 0, [?read]))"
    by (simp add: eval_defs)
  have pen: "getSecretValue (verifyRuntime getObject verify)
               (pendingInput ''jwks-secret'' ''token-1'') (0, []) =
             (Inr (Some ?pending), (Suc 0, [?read]))" for getObject verify
    by (simp add: eval_defs signingStore_def)
  have present: "\<not> nullish (secretValue ?pending)"
    by (simp add: activatedRecord_def)
  have signed: "signTestJwt (verifyRuntime getObject verify) (secretValue ?pending)
                  (Suc 0, [?read]) = (Inr ''jwt'', (Suc 0, [?read]))" for getObject verify
    by (simp add: eval_defs)
  have cfg: "getEnvironmentConfig (verifyRuntime getObject verify) = Inr testConfig"
    for getObject verify
    by (simp add: verifyRuntime_def testConfig_loaded)
  have absent: "getJwksFromS3 (verifyRuntime (Inl noSuchKey) (Inr Null))
                  (bucketName testConfig) (bucketPath testConfig) (Suc 0, [?read]) =
                (Inr (Obj [(''keys'', Arr [])]), (Suc 0, [?read, ?load]))"
    by (simp add: eval_defs testConfig_def)
  have other: "getJwksFromS3 (verifyRuntime (Inr (Some ''other-jwks'')) (Inl noMatchingKey))
                 (bucketName testConfig) (bucketPath testConfig) (Suc 0, [?read]) =
               (Inr (Obj [(''keys'', Arr [publishedKey ''different-kid''])]),
                (Suc 0, [?read, ?load]))"
    by (simp add: eval_defs testConfig_def)
  have first: "fst (testSecret (rotationRuntime Map.empty 1704672001000) ''jwks-secret''
                      ''token-1'' (0, [])) = Inl (Error ''AWSPENDING version not found'')"
    using testSecret_signing_record [OF pen0] by simp
  have second: "fst (testSecret (verifyRuntime (Inl noSuchKey) (Inr Null)) ''jwks-secret''
                       ''token-1'' (0, [])) = Inl (Error ''No keys found in JWKS document'')"
    using testSecret_signing_record [OF pen [of "Inl noSuchKey" "Inr Null"],
        THEN conjunct2, THEN conjunct1, rule_format,
        of ?pending "''jwt''" "(Suc 0, [?read])" testConfig
          "Obj [(''keys'', Arr [])]" "(Suc 0, [?read, ?load])", THEN conjunct1]
      present signed cfg absent
    by simp
  have third: "fst (testSecret (verifyRuntime (Inr (Some ''other-jwks'')) (Inl noMatchingKey))
                      ''jwks-secret'' ''token-1'' (0, [])) =
                 Inl (Error (''JWT verification failed: '' @ thrownToString noMatchingKey))"
    using testSecret_signing_record [OF pen [of "Inr (Some ''other-jwks'')" "Inl noMatchingKey"],
        THEN conjunct2, THEN conjunct1, rule_format,
        of ?pending "''jwt''" "(Suc 0, [?read])"
          testConfig "Obj [(''keys'', Arr [publishedKey ''different-kid''])]"
          "(Suc 0, [?read, ?load])", THEN conjunct2, rule_format,
        of "publishedKey ''different-kid''" "[]"
          "Obj [(''keys'', Arr [publishedKey ''different-kid''])]" noMatchingKey "Suc 0"]
      present signed cfg other
    by (simp add: eval_defs)
  have success: "testSecret (verifyRuntime (Inr (Some ''pending-jwks'')) (Inr (testPayload 0 0)))
     ''jwks-secret'' ''token-1'' (0, []) = (Inr (), (Suc 0, [?read, ?load]))"
    by (simp add: testSecret_def lengthOf.simps eval_defs signingStore_def)
  have silent: "writes (sent (testSecret (verifyRuntime (Inr (Some ''pending-jwks''))
                   (Inr (testPayload 0 0))) ''jwks-secret'' ''token-1'' (0, []))) = []"
    using testSecret_signing_record [OF pen [of "Inr (Some ''pending-jwks'')"
          "Inr (testPayload 0 0)"], THEN conjunct2, THEN conjunct2, THEN conjunct2]
    by (simp add: noWrites_def writes_def)
  show ?thesis
    using first second third success silent by (simp add: noMatchingKey_def)
qed

section \<open>cleanup\<close>

text \<open>
  C8, as the code has it. Let the read of AWSCURRENT return. With no AWSCURRENT record
  the cleanup returns without an error and sends nothing but that read. With an
  AWSCURRENT record it rebuilds the JWKS with the record it has just read as the override
  for the current key (NEXT and AWSPREVIOUS are read from the store, AWSCURRENT is not
  read again) and, when the configuration loads and the rebuild and the publication
  succeed, returns after exactly one write, the put of that document.
\<close>

theorem cleanupExpiredKeys_republishes_with_current_override:
  assumes cur: "getSecretValue rt (stageInput secretArn ''AWSCURRENT'') s0 = (Inr current, s1)"
  shows "(current = None \<longrightarrow>
            cleanupExpiredKeys rt secretArn s0 =
              (Inr (), (fst s1, snd s0 @
                 [GetSecretValueCommand (stageInput secretArn ''AWSCURRENT'')])) \<and>
            writes (sent (cleanupExpiredKeys rt secretArn s0)) = writes (snd s0)) \<and>
         (\<forall>currentVersion config jwks s2 w3.
            current = Some currentVersion \<and>
            getEnvironmentConfig rt = Inr config \<and>
            buildJwks rt secretArn
              \<lparr> nextSecret = Undefined, previousSecret = Undefined,
                currentSecret = secretValue currentVersion \<rparr> s1 = (Inr jwks, s2) \<and>
            s3Client_PutObject rt (jwksPutInput rt config jwks) (fst s2) = (Inr (), w3)
            \<longrightarrow>
            fst (cleanupExpiredKeys rt secretArn s0) = Inr () \<and>
            writes (sent (cleanupExpiredKeys rt secretArn s0)) =
              writes (snd s0) @ [PutObjectCommand (jwksPutInput rt config jwks)])"
proof (intro conjI impI allI)
  assume none: "current = None"
  have log: "snd s1 = snd s0 @ [GetSecretValueCommand (stageInput secretArn ''AWSCURRENT'')]"
    using getSecretValue_sent [OF cur] .
  have run: "cleanupExpiredKeys rt secretArn s0 = (Inr (), s1)"
    using none by (simp add: cleanupExpiredKeys_def bindIO_def cur returnIO_def)
  show "cleanupExpiredKeys rt secretArn s0 =
          (Inr (), (fst s1, snd s0 @ [GetSecretValueCommand (stageInput secretArn ''AWSCURRENT'')]))"
    unfolding run using log by (cases s1) simp
  show "writes (sent (cleanupExpiredKeys rt secretArn s0)) = writes (snd s0)"
    unfolding run by (simp add: sent_def log writes_def)
next
  fix currentVersion :: SecretVersion
    and config :: EnvironmentConfig and jwks :: jsval and s2 :: "'a state" and w3 :: 'a
  assume h: "current = Some currentVersion \<and>
            getEnvironmentConfig rt = Inr config \<and>
            buildJwks rt secretArn
              \<lparr> nextSecret = Undefined, previousSecret = Undefined,
                currentSecret = secretValue currentVersion \<rparr> s1 = (Inr jwks, s2) \<and>
            s3Client_PutObject rt (jwksPutInput rt config jwks) (fst s2) = (Inr (), w3)"
  then have some: "current = Some currentVersion"
    and cfg: "getEnvironmentConfig rt = Inr config"
    and build: "buildJwks rt secretArn
              \<lparr> nextSecret = Undefined, previousSecret = Undefined,
                currentSecret = secretValue currentVersion \<rparr> s1 = (Inr jwks, s2)"
    and publish: "s3Client_PutObject rt (jwksPutInput rt config jwks) (fst s2) = (Inr (), w3)"
    by auto
  have run: "cleanupExpiredKeys rt secretArn s0 =
      (Inr (), (w3, snd s2 @ [PutObjectCommand (jwksPutInput rt config jwks)]))"
    by (simp add: cleanupExpiredKeys_def bindIO_def tryCatch_def cur some
        regenerateAndPublishJwks_run [OF cfg build publish] returnIO_def)
  show "fst (cleanupExpiredKeys rt secretArn s0) = Inr ()"
    by (simp add: run)
  show "writes (sent (cleanupExpiredKeys rt secretArn s0)) =
          writes (snd s0) @ [PutObjectCommand (jwksPutInput rt config jwks)]"
    using noWritesD [OF noWrites_getSecretValue cur] noWritesD [OF noWrites_buildJwks build]
    by (simp add: run sent_def writes_def)
qed

text \<open>
  On an empty store the cleanup returns after its one read; on a store with an activated
  current key it publishes that key, and the builder reads NEXT and AWSPREVIOUS only.
\<close>

theorem cleanupExpiredKeys_republishes_with_current_override_witness:
  "cleanupExpiredKeys (rotationRuntime Map.empty 1704067200000) ''jwks-secret'' (0, []) =
     (Inr (), (Suc 0, [GetSecretValueCommand (stageInput ''jwks-secret'' ''AWSCURRENT'')])) \<and>
   cleanupExpiredKeys (rotationRuntime activeStore 1704067200000) ''jwks-secret'' (0, []) =
     (Inr (), (Suc (Suc (Suc 0)),
        [GetSecretValueCommand (stageInput ''jwks-secret'' ''AWSCURRENT''),
         GetSecretValueCommand (stageInput ''jwks-secret'' ''NEXT''),
         GetSecretValueCommand (stageInput ''jwks-secret'' ''AWSPREVIOUS''),
         PutObjectCommand
           \<lparr> poBucket = ''test-bucket'', poKey = ''.well-known/jwks.json'',
             poBody = ''current-kid;'', poContentType = ''application/json'',
             poCacheControl = ''public, max-age=3600'' \<rparr>]))"
proof -
  let ?read1 = "GetSecretValueCommand (stageInput ''jwks-secret'' ''AWSCURRENT'')"
  let ?read2 = "GetSecretValueCommand (stageInput ''jwks-secret'' ''NEXT'')"
  let ?read3 = "GetSecretValueCommand (stageInput ''jwks-secret'' ''AWSPREVIOUS'')"
  let ?current = "\<lparr> VersionId = ''current-version-id'', VersionStages = Some [''AWSCURRENT''],
                    secretValue = activatedRecord ''current-kid'' ''2024-01-01T00:00:00.000Z'' \<rparr>"
  let ?jwks = "Obj [(''keys'', Arr [publishedKey ''current-kid''])]"
  let ?rt = "rotationRuntime activeStore 1704067200000"
  have cur0: "getSecretValue (rotationRuntime Map.empty 1704067200000)
                (stageInput ''jwks-secret'' ''AWSCURRENT'') (0, []) = (Inr None, (Suc 0, [?read1]))"
    by (simp add: eval_defs)
  have cur1: "getSecretValue ?rt (stageInput ''jwks-secret'' ''AWSCURRENT'') (0, []) =
              (Inr (Some ?current), (Suc 0, [?read1]))"
    by (simp add: eval_defs activeStore_def)
  have cfg: "getEnvironmentConfig ?rt = Inr testConfig"
    by (simp add: rotationRuntime_def testConfig_loaded)
  have build: "buildJwks ?rt ''jwks-secret''
                 \<lparr> nextSecret = Undefined, previousSecret = Undefined,
                   currentSecret = secretValue ?current \<rparr> (Suc 0, [?read1]) =
               (Inr ?jwks, (Suc (Suc (Suc 0)), [?read1, ?read2, ?read3]))"
    by (simp add: eval_defs activeStore_def)
  have publish: "s3Client_PutObject ?rt (jwksPutInput ?rt testConfig ?jwks)
                   (fst (Suc (Suc (Suc 0)), [?read1, ?read2, ?read3])) =
                 (Inr (), Suc (Suc (Suc 0)))"
    by (simp add: eval_defs)
  have first: "cleanupExpiredKeys (rotationRuntime Map.empty 1704067200000) ''jwks-secret'' (0, []) =
     (Inr (), (Suc 0, [?read1]))"
    using cleanupExpiredKeys_republishes_with_current_override [OF cur0] by simp
  have second: "fst (cleanupExpiredKeys ?rt ''jwks-secret'' (0, [])) = Inr ()"
    using cleanupExpiredKeys_republishes_with_current_override [OF cur1, THEN conjunct2,
        rule_format, of ?current testConfig ?jwks
          "(Suc (Suc (Suc 0)), [?read1, ?read2, ?read3])" "Suc (Suc (Suc 0))"]
      cfg build publish
    by simp
  show ?thesis
    using first second by (simp add: eval_defs cleanupExpiredKeys_def activeStore_def)
qed

text \<open>
  C8 as stated fails: the code passes an override. On a store with an activated current
  key the cleanup reads AWSCURRENT once, where a rebuild from the store with no override
  reads it again in the builder. On a store whose AWSCURRENT record changes after the
  first read, the cleanup publishes the record of its first read, where a rebuild with no
  override publishes the record that is current when the builder reads.
\<close>

theorem cleanupExpiredKeys_override_counterexample:
  "sent (cleanupExpiredKeys (rotationRuntime activeStore 1704067200000) ''jwks-secret'' (0, [])) =
     [GetSecretValueCommand (stageInput ''jwks-secret'' ''AWSCURRENT''),
      GetSecretValueCommand (stageInput ''jwks-secret'' ''NEXT''),
      GetSecretValueCommand (stageInput ''jwks-secret'' ''AWSPREVIOUS''),
      PutObjectCommand
        \<lparr> poBucket = ''test-bucket'', poKey = ''.well-known/jwks.json'',
          poBody = ''current-kid;'', poContentType = ''application/json'',
          poCacheControl = ''public, max-age=3600'' \<rparr>] \<and>
   sent (cleanupWithoutOverrides (rotationRuntime activeStore 1704067200000) ''jwks-secret''
           (0, [])) =
     [GetSecretValueCommand (stageInput ''jwks-secret'' ''AWSCURRENT''),
      GetSecretValueCommand (stageInput ''jwks-secret'' ''NEXT''),
      GetSecretValueCommand (stageInput ''jwks-secret'' ''AWSCURRENT''),
      GetSecretValueCommand (stageInput ''jwks-secret'' ''AWSPREVIOUS''),
      PutObjectCommand
        \<lparr> poBucket = ''test-bucket'', poKey = ''.well-known/jwks.json'',
          poBody = ''current-kid;'', poContentType = ''application/json'',
          poCacheControl = ''public, max-age=3600'' \<rparr>] \<and>
   writes (sent (cleanupExpiredKeys changingRuntime ''jwks-secret'' (0, []))) =
     [PutObjectCommand
        \<lparr> poBucket = ''test-bucket'', poKey = ''.well-known/jwks.json'',
          poBody = ''current-kid;'', poContentType = ''application/json'',
          poCacheControl = ''public, max-age=3600'' \<rparr>] \<and>
   writes (sent (cleanupWithoutOverrides changingRuntime ''jwks-secret'' (0, []))) =
     [PutObjectCommand
        \<lparr> poBucket = ''test-bucket'', poKey = ''.well-known/jwks.json'',
          poBody = ''rotated-kid;'', poContentType = ''application/json'',
          poCacheControl = ''public, max-age=3600'' \<rparr>]"
  by (simp add: writes_def sent_def cleanupExpiredKeys_def cleanupWithoutOverrides_def
      noOptions_def changingRuntime_def changingStore_def activeStore_def eval_defs)


section \<open>Configuration loading\<close>

text \<open>
  C9, as the code has it. The loader has no default for the minimum key cleanup grace
  period: \<^verbatim>\<open>MIN_KEY_CLEANUP_GRACE_PERIOD_SECONDS\<close> is required like the other five
  variables. Loading succeeds exactly when all six variables are set and not empty, the
  three durations parse as integers and \<^verbatim>\<open>KEY_SPEC\<close> parses as JSON. With the first four
  variables present and the cleanup grace period unset it fails with the message that
  names that variable. Every failure names a variable that is really missing or
  malformed.
\<close>

theorem getEnvironmentConfig_requires_every_variable:
  "((\<exists>config. getEnvironmentConfig rt = Inr config) \<longleftrightarrow> configComplete rt) \<and>
   (list_all (\<lambda>v. \<not> unsetOrEmpty (processEnv rt v))
       [''BUCKET_NAME'', ''BUCKET_PATH'', ''MIN_ACTIVATION_GRACE_PERIOD_SECONDS'',
        ''MAX_TOKEN_VALIDITY_DURATION_SECONDS''] \<and>
    unsetOrEmpty (processEnv rt ''MIN_KEY_CLEANUP_GRACE_PERIOD_SECONDS'') \<longrightarrow>
    getEnvironmentConfig rt =
      Inl (Error ''MIN_KEY_CLEANUP_GRACE_PERIOD_SECONDS environment variable is required'')) \<and>
   (\<forall>e. getEnvironmentConfig rt = Inl e \<longrightarrow>
      (\<exists>v \<in> set requiredVariables.
          unsetOrEmpty (processEnv rt v) \<and>
          e = Error (v @ '' environment variable is required'')) \<or>
      (\<exists>v \<in> set numericVariables.
          parseInt (the (processEnv rt v)) = None \<and>
          e = Error (v @ '' must be a valid number'')) \<or>
      (isl (JSON_parse rt (the (processEnv rt ''KEY_SPEC''))) \<and>
       e = Error ''Invalid KEY_SPEC environment variable''))"
proof (intro conjI allI impI)
  show "(\<exists>config. getEnvironmentConfig rt = Inr config) \<longleftrightarrow> configComplete rt"
    by (auto simp: getEnvironmentConfig_def Let_def configComplete_def requiredVariables_def
        numericVariables_def split: option.splits sum.splits)
next
  assume "list_all (\<lambda>v. \<not> unsetOrEmpty (processEnv rt v))
       [''BUCKET_NAME'', ''BUCKET_PATH'', ''MIN_ACTIVATION_GRACE_PERIOD_SECONDS'',
        ''MAX_TOKEN_VALIDITY_DURATION_SECONDS''] \<and>
    unsetOrEmpty (processEnv rt ''MIN_KEY_CLEANUP_GRACE_PERIOD_SECONDS'')"
  then show "getEnvironmentConfig rt =
      Inl (Error ''MIN_KEY_CLEANUP_GRACE_PERIOD_SECONDS environment variable is required'')"
    by (simp add: getEnvironmentConfig_def Let_def)
next
  fix e
  assume "getEnvironmentConfig rt = Inl e"
  then show "(\<exists>v \<in> set requiredVariables.
          unsetOrEmpty (processEnv rt v) \<and>
          e = Error (v @ '' environment variable is required'')) \<or>
      (\<exists>v \<in> set numericVariables.
          parseInt (the (processEnv rt v)) = None \<and>
          e = Error (v @ '' must be a valid number'')) \<or>
      (isl (JSON_parse rt (the (processEnv rt ''KEY_SPEC''))) \<and>
       e = Error ''Invalid KEY_SPEC environment variable'')"
    by (auto simp: getEnvironmentConfig_def Let_def requiredVariables_def
        numericVariables_def split: option.splits sum.splits if_splits)
qed

text \<open>
  The test environment is complete and loads; without the cleanup grace period it is
  refused with that variable's message.
\<close>

theorem getEnvironmentConfig_requires_every_variable_witness:
  "configComplete storeRuntime \<and>
   (\<exists>config. getEnvironmentConfig storeRuntime = Inr config) \<and>
   getEnvironmentConfig
     (mockRuntime testEnvWithoutCleanupGrace testParse 0 (\<lambda>v. None) answersBySecretId
        (Inr None) (Inr Null)) =
     Inl (Error ''MIN_KEY_CLEANUP_GRACE_PERIOD_SECONDS environment variable is required'')"
proof -
  have complete: "configComplete storeRuntime"
    by (simp add: configComplete_def storeRuntime_def mockRuntime_def testEnv_def
        testParse_def requiredVariables_def numericVariables_def parseInt_def
        isWhiteSpace_def isDigit_def digitsValue_def)
  have missing:
    "list_all (\<lambda>v. \<not> unsetOrEmpty
        (processEnv (mockRuntime testEnvWithoutCleanupGrace testParse 0 (\<lambda>v. None)
           answersBySecretId (Inr None) (Inr Null)) v))
       [''BUCKET_NAME'', ''BUCKET_PATH'', ''MIN_ACTIVATION_GRACE_PERIOD_SECONDS'',
        ''MAX_TOKEN_VALIDITY_DURATION_SECONDS''] \<and>
     unsetOrEmpty
       (processEnv (mockRuntime testEnvWithoutCleanupGrace testParse 0 (\<lambda>v. None)
          answersBySecretId (Inr None) (Inr Null)) ''MIN_KEY_CLEANUP_GRACE_PERIOD_SECONDS'')"
    by (simp add: mockRuntime_def testEnvWithoutCleanupGrace_def testEnv_def)
  from complete missing
    getEnvironmentConfig_requires_every_variable [of storeRuntime]
    getEnvironmentConfig_requires_every_variable
      [of "mockRuntime testEnvWithoutCleanupGrace testParse 0 (\<lambda>v. None) answersBySecretId
             (Inr None) (Inr Null)"]
  show ?thesis by blast
qed

text \<open>
  C9 as stated fails: with every other variable present and well formed and the cleanup
  grace period unset, loading does not succeed.
\<close>

theorem getEnvironmentConfig_default_counterexample:
  "\<not> unsetOrEmpty (testEnvWithoutCleanupGrace ''BUCKET_NAME'') \<and>
   \<not> unsetOrEmpty (testEnvWithoutCleanupGrace ''BUCKET_PATH'') \<and>
   parseInt (the (testEnvWithoutCleanupGrace ''MIN_ACTIVATION_GRACE_PERIOD_SECONDS'')) = Some 604800 \<and>
   parseInt (the (testEnvWithoutCleanupGrace ''MAX_TOKEN_VALIDITY_DURATION_SECONDS'')) = Some 3600 \<and>
   testParse (the (testEnvWithoutCleanupGrace ''KEY_SPEC'')) = Inr (Obj [(''algorithm'', Str ''RS256'')]) \<and>
   testEnvWithoutCleanupGrace ''MIN_KEY_CLEANUP_GRACE_PERIOD_SECONDS'' = None \<and>
   getEnvironmentConfig
     (mockRuntime testEnvWithoutCleanupGrace testParse 0 (\<lambda>v. None) answersBySecretId
        (Inr None) (Inr Null)) =
     Inl (Error ''MIN_KEY_CLEANUP_GRACE_PERIOD_SECONDS environment variable is required'')"
  by (simp add: getEnvironmentConfig_def Let_def mockRuntime_def testEnvWithoutCleanupGrace_def
      testEnv_def testParse_def parseInt_def isWhiteSpace_def isDigit_def digitsValue_def)


section \<open>Reading a secret version\<close>

text \<open>
  C10. Let the store answer one \<^verbatim>\<open>GetSecretValue\<close> command with \<open>r\<close>. Then
  \<open>getSecretValue\<close> returns the absent sentinel when \<open>r\<close> is the not-found error, when
  there is no response, and when the response has no secret string or an empty one; any
  other failure of the store is thrown as it is; a response with a secret string and no
  version id throws \<^verbatim>\<open>Secret version has no VersionId\<close>; a record is returned only for a
  response with a secret string that parses and a version id that is not empty. In every
  case exactly that one command was sent.
\<close>

theorem getSecretValue_absent_or_raised:
  assumes "secretsClient_GetSecretValue rt input (fst s) = (r, w')"
  shows "((\<exists>e. r = Inl e \<and> isNamedError ''ResourceNotFoundException'' e) \<or> r = Inr None \<or>
          (\<exists>resp. r = Inr (Some resp) \<and> unsetOrEmpty (respSecretString resp))
            \<longrightarrow> fst (getSecretValue rt input s) = Inr None) \<and>
         (\<forall>e. r = Inl e \<and> \<not> isNamedError ''ResourceNotFoundException'' e
            \<longrightarrow> fst (getSecretValue rt input s) = Inl e) \<and>
         (\<forall>resp. r = Inr (Some resp) \<and> \<not> unsetOrEmpty (respSecretString resp) \<and>
                 unsetOrEmpty (respVersionId resp)
            \<longrightarrow> fst (getSecretValue rt input s) =
                  Inl (Error ''Secret version has no VersionId'')) \<and>
         (\<forall>sv. fst (getSecretValue rt input s) = Inr (Some sv)
            \<longrightarrow> (\<exists>resp. r = Inr (Some resp) \<and> \<not> unsetOrEmpty (respSecretString resp) \<and>
                        respVersionId resp = Some (VersionId sv) \<and> VersionId sv \<noteq> [] \<and>
                        JSON_parse rt (the (respSecretString resp)) = Inr (secretValue sv))) \<and>
         snd (getSecretValue rt input s) = (w', snd s @ [GetSecretValueCommand input])"
  unfolding getSecretValue_run [OF assms]
  by (auto split: sum.splits option.splits if_splits dest!: not_unsetOrEmptyD)

text \<open>
  A missing secret and a version with an empty secret string both give the sentinel; an
  unreachable store and a version without a version id are raised.
\<close>

theorem getSecretValue_absent_or_raised_witness:
  "fst (getSecretValue storeRuntime (stageInput ''missing'' ''AWSCURRENT'') (0, [])) = Inr None \<and>
   fst (getSecretValue storeRuntime (stageInput ''empty'' ''AWSCURRENT'') (0, [])) = Inr None \<and>
   fst (getSecretValue storeRuntime (stageInput ''unreachable'' ''AWSCURRENT'') (0, [])) =
     Inl (Error ''AWS Error'') \<and>
   fst (getSecretValue storeRuntime (stageInput ''no-version-id'' ''AWSCURRENT'') (0, [])) =
     Inl (Error ''Secret version has no VersionId'')"
proof -
  have answer: "secretsClient_GetSecretValue storeRuntime input (fst (0, [])) =
      (answersBySecretId input 0, Suc 0)" for input
    by (simp add: storeRuntime_def mockRuntime_def)
  show ?thesis
    using getSecretValue_absent_or_raised [OF answer [of "stageInput ''missing'' ''AWSCURRENT''"]]
      getSecretValue_absent_or_raised [OF answer [of "stageInput ''empty'' ''AWSCURRENT''"]]
      getSecretValue_absent_or_raised [OF answer [of "stageInput ''unreachable'' ''AWSCURRENT''"]]
      getSecretValue_absent_or_raised [OF answer [of "stageInput ''no-version-id'' ''AWSCURRENT''"]]
    by (simp add: answersBySecretId_def stageInput_def notFound_def)
qed


end
